theory Spec2Isabelle
  imports Complex_Main
begin

section \<open>Strings\<close>

text \<open>
  A JavaScript string is a sequence of UTF-16 code units. The dashes of the title-bar
  pattern (U+2013, U+2014) and the Unicode white space of \<open>\s\<close> and \<open>trim()\<close> lie
  outside ASCII, so a code unit is a natural number and not a \<open>char\<close>.
  \<open>asc\<close> turns an ASCII literal of the source into code units.
\<close>

type_synonym jstring = "nat list"

definition asc :: "string \<Rightarrow> jstring" where
  "asc s = map of_char s"

text \<open>ECMAScript WhiteSpace and LineTerminator: what \<open>\s\<close> matches and \<open>trim()\<close> strips.\<close>

definition isSpace :: "nat \<Rightarrow> bool" where
  "isSpace c = ((9 \<le> c \<and> c \<le> 13) \<or> c = 32 \<or> c = 160 \<or> c = 5760 \<or> (8192 \<le> c \<and> c \<le> 8202)
     \<or> c = 8232 \<or> c = 8233 \<or> c = 8239 \<or> c = 8287 \<or> c = 12288 \<or> c = 65279)"

text \<open>\<open>\w\<close> without the unicode flag: \<open>[A-Za-z0-9_]\<close>, also under the \<open>i\<close> flag.\<close>

definition isWord :: "nat \<Rightarrow> bool" where
  "isWord c = ((48 \<le> c \<and> c \<le> 57) \<or> (65 \<le> c \<and> c \<le> 90) \<or> (97 \<le> c \<and> c \<le> 122) \<or> c = 95)"

text \<open>
  Case folding of the \<open>i\<close> flag without the unicode flag: a code unit of 128 or more never
  folds onto an ASCII one, so for the ASCII literals of the source only ASCII letters fold.
\<close>

definition toUpper :: "nat \<Rightarrow> nat" where
  "toUpper c = (if 97 \<le> c \<and> c \<le> 122 then c - 32 else c)"

definition toLower :: "nat \<Rightarrow> nat" where
  "toLower c = (if 65 \<le> c \<and> c \<le> 90 then c + 32 else c)"

text \<open>
  \<open>toLowerCase()\<close>, on ASCII letters. Every string the classifier lower-cases is then
  only tested against ASCII patterns and ASCII word lists.
\<close>

definition toLowerCase :: "jstring \<Rightarrow> jstring" where
  "toLowerCase s = map toLower s"

definition trim :: "jstring \<Rightarrow> jstring" where
  "trim s = rev (dropWhile isSpace (rev (dropWhile isSpace s)))"

fun join :: "jstring \<Rightarrow> jstring list \<Rightarrow> jstring" where
  "join sep [] = []"
| "join sep [x] = x"
| "join sep (x # y # ys) = x @ sep @ join sep (y # ys)"

text \<open>A value of type \<open>string | undefined\<close> is truthy when it is a non-empty string.\<close>

fun truthyStr :: "jstring option \<Rightarrow> bool" where
  "truthyStr None = False"
| "truthyStr (Some s) = (s \<noteq> [])"

section \<open>Regular expressions\<close>

text \<open>
  The fragment of ECMAScript regular expressions that the classifier uses: a character
  class, concatenation, ordered alternation, a greedy \<open>{n,}\<close> repetition of a class, a
  greedy optional, capture group 1 and \<open>$\<close>. \<open>rmatch\<close> lists the states a backtracking
  matcher reaches from a start state, in the order in which it tries them; the head of
  the list is the match it reports.
\<close>

datatype rx =
    Chr "nat \<Rightarrow> bool"
  | Emp
  | Cat rx rx
  | Alt rx rx
  | Rep nat "nat \<Rightarrow> bool"
  | Opt rx
  | Cap rx
  | Eol

type_synonym mstate = "jstring \<times> jstring option"

fun rmatch :: "rx \<Rightarrow> mstate \<Rightarrow> mstate list" where
  "rmatch (Chr P) (s, g) = (case s of [] \<Rightarrow> [] | c # cs \<Rightarrow> if P c then [(cs, g)] else [])"
| "rmatch Emp st = [st]"
| "rmatch (Cat a b) st = concat (map (rmatch b) (rmatch a st))"
| "rmatch (Alt a b) st = rmatch a st @ rmatch b st"
| "rmatch (Rep n P) (s, g) = map (\<lambda>j. (drop j s, g)) (rev [n..<Suc (length (takeWhile P s))])"
| "rmatch (Opt a) st = rmatch a st @ [st]"
| "rmatch (Cap a) (s, g) =
     map (\<lambda>(s', _). (s', Some (take (length s - length s') s))) (rmatch a (s, g))"
| "rmatch Eol (s, g) = (if s = [] then [(s, g)] else [])"

text \<open>
  \<open>String.prototype.match\<close> and \<open>RegExp.prototype.test\<close> without the \<open>g\<close> flag: the
  start positions are tried from left to right, and the first one with a match wins.
\<close>

fun search :: "rx \<Rightarrow> jstring \<Rightarrow> mstate option" where
  "search r [] = (case rmatch r ([], None) of [] \<Rightarrow> None | st # _ \<Rightarrow> Some st)"
| "search r (c # cs) = (case rmatch r (c # cs, None) of [] \<Rightarrow> search r cs | st # _ \<Rightarrow> Some st)"

definition test :: "rx \<Rightarrow> jstring \<Rightarrow> bool" where
  "test r s = (search r s \<noteq> None)"

text \<open>A pattern that starts with \<open>^\<close> is tried at position 0 only.\<close>

definition testAtStart :: "rx \<Rightarrow> jstring \<Rightarrow> bool" where
  "testAtStart r s = (rmatch r (s, None) \<noteq> [])"

text \<open>Group 1 of the match: \<open>text.match(re)[1]\<close>, or nothing when \<open>match\<close> gives null.\<close>

definition match1 :: "rx \<Rightarrow> jstring \<Rightarrow> jstring option" where
  "match1 r s = (case search r s of None \<Rightarrow> None | Some (_, g) \<Rightarrow> g)"

definition ichr :: "nat \<Rightarrow> nat \<Rightarrow> bool" where
  "ichr a c = (toUpper c = toUpper a)"

definition ilit :: "string \<Rightarrow> rx" where
  "ilit s = foldr (\<lambda>a r. Cat (Chr (ichr (of_char a))) r) s Emp"

fun alts :: "rx list \<Rightarrow> rx" where
  "alts [] = Chr (\<lambda>_. False)"
| "alts [r] = r"
| "alts (r # rs) = Alt r (alts rs)"

fun seqs :: "rx list \<Rightarrow> rx" where
  "seqs [] = Emp"
| "seqs [r] = r"
| "seqs (r # rs) = Cat r (seqs rs)"

section \<open>Classifier\<close>

subsection \<open>inferAction\<close>

definition actionRules :: "(rx \<times> string) list" where
  "actionRules =
    [(alts [ilit ''coding'', seqs [ilit ''editing'', Rep 0 isSpace, ilit ''code''],
            seqs [ilit ''writing'', Rep 0 isSpace, ilit ''code''], ilit ''programming'',
            ilit ''debugging''], ''coding''),
     (alts [ilit ''browsing'', ilit ''searching'', ilit ''navigating'', ilit ''web''], ''browsing''),
     (alts [ilit ''chatting'', ilit ''messaging'', ilit ''replying'', ilit ''conversation''],
      ''chatting''),
     (alts [ilit ''reading'', ilit ''reviewing'', seqs [ilit ''viewing'', Rep 0 isSpace, ilit ''doc'']],
      ''reading''),
     (alts [ilit ''meeting'', ilit ''call'', seqs [ilit ''video'', Rep 0 isSpace, ilit ''call''],
            ilit ''conference''], ''meeting''),
     (alts [ilit ''writing'', ilit ''composing'', ilit ''drafting'',
            seqs [ilit ''typing'', Rep 0 isSpace, ilit ''doc'']], ''writing''),
     (alts [ilit ''designing'', ilit ''prototyping'', ilit ''wireframing''], ''designing''),
     (alts [ilit ''watching'', ilit ''streaming'', ilit ''playing''], ''watching''),
     (alts [ilit ''email'', ilit ''inbox'', ilit ''reply''], ''emailing'')]"

fun firstAction :: "(rx \<times> string) list \<Rightarrow> jstring \<Rightarrow> jstring" where
  "firstAction [] combined = asc ''working''"
| "firstAction ((r, tag) # rules) combined =
     (if test r combined then asc tag else firstAction rules combined)"

definition inferAction :: "jstring list \<Rightarrow> jstring" where
  "inferAction sceneTexts =
     (if sceneTexts = [] then asc ''unknown''
      else firstAction actionRules (toLowerCase (join (asc '' '') sceneTexts)))"

subsection \<open>inferProject\<close>

definition REJECTED_NAMES :: "string list" where
  "REJECTED_NAMES =
    [''src'', ''lib'', ''dist'', ''build'', ''node_modules'', ''public'', ''out'',
     ''components'', ''pages'', ''utils'', ''hooks'', ''types'', ''assets'',
     ''styles'', ''tests'', ''test'', ''__tests__'', ''spec'', ''bin'', ''tmp'',
     ''desktop'', ''downloads'', ''documents'', ''applications'', ''users'',
     ''home'', ''root'', ''var'', ''etc'', ''usr'', ''opt'', ''volumes'',
     ''untitled'', ''workspace'', ''project'', ''folder'', ''file'', ''new'']"

definition GENERIC_WORDS :: "string list" where
  "GENERIC_WORDS =
    [''tabs'', ''and'', ''the'', ''for'', ''with'', ''from'', ''input'', ''output'',
     ''start'', ''stop'', ''play'', ''code'', ''data'', ''home'', ''main'', ''index'',
     ''origin'', ''master'', ''objects'', ''functions'', ''channels'', ''progress'',
     ''space'', ''search'', ''system'', ''network'', ''process'', ''processor'',
     ''movies'', ''ctrl'', ''experiments'', ''temporal'', ''latency'', ''humanoid'',
     ''conversations'', ''debugging'', ''coding'', ''browsing'', ''reading'',
     ''meeting'', ''designing'', ''learning'', ''working'', ''watching'']"

definition TLDS :: "string list" where
  "TLDS = [''com'', ''org'', ''io'', ''dev'', ''net'', ''co'', ''app'', ''xyz'', ''ai'', ''me'',
           ''tv'', ''gg'']"

definition URL_PREFIXES :: "string list" where
  "URL_PREFIXES = [''www'', ''http'', ''ftp'']"

definition isDot :: "nat \<Rightarrow> bool" where
  "isDot c = (c = 46)"

definition isLowerAZ :: "nat \<Rightarrow> bool" where
  "isLowerAZ c = (97 \<le> c \<and> c \<le> 122)"

text \<open>\<open>/\.(com|org|io|dev|net|co|app|xyz|ai|me|tv|gg)$/i\<close>\<close>

definition tldRx :: rx where
  "tldRx = seqs [Chr isDot, alts (map ilit TLDS), Eol]"

text \<open>\<open>/^(www|http|ftp)\./i\<close>, tried at position 0.\<close>

definition urlPrefixRx :: rx where
  "urlPrefixRx = seqs [alts (map ilit URL_PREFIXES), Chr isDot]"

text \<open>\<open>/^[a-z]+$/\<close>, tried at position 0.\<close>

definition lettersRx :: rx where
  "lettersRx = seqs [Rep 1 isLowerAZ, Eol]"

definition isValidProject :: "jstring \<Rightarrow> bool" where
  "isValidProject name =
     (let lower = toLowerCase name in
      if length lower < 3 \<or> length lower > 50 then False
      else if test tldRx lower then False
      else if testAtStart urlPrefixRx lower then False
      else if lower \<in> set (map asc REJECTED_NAMES) then False
      else if testAtStart lettersRx lower \<and> lower \<in> set (map asc GENERIC_WORDS) then False
      else True)"

definition EDITORS :: "string list" where
  "EDITORS = [''VS Code'', ''Visual Studio'', ''Cursor'', ''IntelliJ'', ''WebStorm'', ''PyCharm'',
              ''GoLand'', ''Xcode'', ''Sublime'']"

text \<open>\<open>[\w. _-]\<close>, \<open>[\w._-]\<close>, the dash class (hyphen, U+2013, U+2014) and \<open>[\\/]\<close>.\<close>

definition isNameChr :: "nat \<Rightarrow> bool" where
  "isNameChr c = (isWord c \<or> c = 46 \<or> c = 32 \<or> c = 95 \<or> c = 45)"

definition isPathChr :: "nat \<Rightarrow> bool" where
  "isPathChr c = (isWord c \<or> c = 46 \<or> c = 95 \<or> c = 45)"

definition isDash :: "nat \<Rightarrow> bool" where
  "isDash c = (c = 45 \<or> c = 8211 \<or> c = 8212)"

definition isSep :: "nat \<Rightarrow> bool" where
  "isSep c = (c = 92 \<or> c = 47)"

text \<open>
  \<open>/([\w][\w. _-]{2,})\s*[-\u2013\u2014]\s*(?:VS Code|Visual Studio|Cursor|IntelliJ|WebStorm|PyCharm|GoLand|Xcode|Sublime)/i\<close>
\<close>

definition titleRx :: rx where
  "titleRx = seqs [Cap (Cat (Chr isWord) (Rep 2 isNameChr)), Rep 0 isSpace, Chr isDash,
                   Rep 0 isSpace, alts (map ilit EDITORS)]"

definition SOURCE_DIRS :: "rx list" where
  "SOURCE_DIRS = [ilit ''src'', ilit ''lib'', ilit ''app'',
                  Cat (ilit ''package'') (Opt (ilit ''s'')), ilit ''cmd'']"

text \<open>\<open>/[\\/]([\w][\w._-]{2,})[\\/](?:src|lib|app|packages?|cmd)[\\/]/i\<close>\<close>

definition pathRx :: rx where
  "pathRx = seqs [Chr isSep, Cap (Cat (Chr isWord) (Rep 2 isPathChr)), Chr isSep,
                  alts SOURCE_DIRS, Chr isSep]"

text \<open>
  The two candidates a text can give: the trimmed group 1 of the first match of the
  title-bar pattern, and group 1 of the first match of the path pattern.
\<close>

definition titleCandidate :: "jstring \<Rightarrow> jstring option" where
  "titleCandidate text = map_option trim (match1 titleRx text)"

definition pathCandidate :: "jstring \<Rightarrow> jstring option" where
  "pathCandidate text = match1 pathRx text"

fun validated :: "jstring option \<Rightarrow> jstring option" where
  "validated None = None"
| "validated (Some name) = (if isValidProject name then Some name else None)"

fun inferProject :: "jstring list \<Rightarrow> jstring option" where
  "inferProject [] = None"
| "inferProject (text # rest) =
     (case validated (titleCandidate text) of
        Some name \<Rightarrow> Some name
      | None \<Rightarrow>
          (case validated (pathCandidate text) of
             Some name \<Rightarrow> Some name
           | None \<Rightarrow> inferProject rest))"

section \<open>Data model\<close>

datatype channel = scene_index | visual_index | transcript | spoken_index | alert

datatype AppCategory =
  development | browsing | communication | documents | design | email | entertainment | other

record RawEvent =
  sessionId :: jstring
  timestamp :: int
  channel :: channel
  appName :: "jstring option"
  appCategory :: "AppCategory option"
  summaryText :: "jstring option"
  rawJson :: jstring

record ActivitySegment =
  seg_id :: "nat option"
  seg_sessionId :: jstring
  startTime :: int
  endTime :: int
  primaryApp :: "jstring option"
  seg_appCategory :: "AppCategory option"
  seg_action :: jstring
  project :: "jstring option"
  seg_context :: "jstring option"
  transcriptSnippet :: "jstring option"
  eventCount :: nat
  isIdle :: bool

text \<open>
  A value decoded from the model's JSON output. Fields typed \<open>string\<close> in the source
  that are filled from the decoded object without a check hold such a value at run time.
\<close>

datatype json =
    JNull
  | JBool bool
  | JNum rat
  | JStr jstring
  | JArr "json list"
  | JObj "(jstring \<times> json) list"

text \<open>
  \<open>Record<string, number>\<close>: the entries of the object in insertion order, one per key.
  The keys are application and project names; none of them is taken to be the name of a
  property that every JavaScript object inherits.
\<close>

type_synonym durations = "(jstring \<times> int) list"

record MicroSummary =
  m_sessionId :: jstring
  m_startTime :: int
  m_endTime :: int
  m_summary :: json
  appBreakdown :: durations
  primaryActivity :: "json option"
  m_productivityLabel :: json
  m_project :: "jstring option"
  segmentIds :: "nat list"

record SessionSummary =
  ss_sessionId :: jstring
  ss_date :: jstring
  ss_startTime :: int
  ss_endTime :: int
  ss_summary :: json
  keyActivities :: "jstring list"
  projects :: durations
  appStats :: durations
  ss_productivityLabel :: json

text \<open>
  A drill-down section of a daily summary (title, summary and a time range computed with
  floating-point arithmetic on whatever the model gave as hours) is kept abstract.
\<close>

typedecl DrillDownSection

record DailySummary =
  ds_date :: jstring
  headline :: json
  ds_summary :: json
  highlights :: json
  improvements :: json
  drillDownSections :: "DrillDownSection list"
  totalTrackedSecs :: int
  totalIdleSecs :: int
  totalProductiveSecs :: int
  totalDistractedSecs :: int
  topApps :: durations
  topProjects :: durations

record DeepDiveResult =
  analysis :: jstring

section \<open>Persistent store\<close>

text \<open>
  Modelled from the spec: the module \<open>./database\<close> is not among the sources. The
  store holds the rows of each entity in insertion order; an insert appends a row and
  gives it the next id; the queries select rows by session id and by time range as section
  4.3 and section 6 of the specification describe them; the daily summary is upserted by
  date; the deep-dive cache maps a key to a result and nothing removes an entry.
\<close>

record store =
  rawEvents :: "RawEvent list"
  activitySegments :: "ActivitySegment list"
  microSummaries :: "MicroSummary list"
  sessionSummaries :: "SessionSummary list"
  dailySummaries :: "DailySummary list"
  deepDives :: "(jstring \<times> DeepDiveResult) list"

definition insertRawEvent :: "store \<Rightarrow> RawEvent \<Rightarrow> store" where
  "insertRawEvent st e = st\<lparr>rawEvents := rawEvents st @ [e]\<rparr>"

definition insertActivitySegment :: "store \<Rightarrow> ActivitySegment \<Rightarrow> nat \<times> store" where
  "insertActivitySegment st seg =
     (let i = Suc (length (activitySegments st))
      in (i, st\<lparr>activitySegments := activitySegments st @ [seg\<lparr>seg_id := Some i\<rparr>]\<rparr>))"

definition getUnprocessedSegmentsForMicro :: "store \<Rightarrow> jstring \<Rightarrow> int \<Rightarrow> ActivitySegment list" where
  "getUnprocessedSegmentsForMicro st sid since =
     filter (\<lambda>s. seg_sessionId s = sid \<and> startTime s > since) (activitySegments st)"

definition getActivitySegments :: "store \<Rightarrow> int \<Rightarrow> int \<Rightarrow> ActivitySegment list" where
  "getActivitySegments st a b =
     filter (\<lambda>s. a \<le> startTime s \<and> endTime s \<le> b) (activitySegments st)"

definition updateSegmentProjects :: "store \<Rightarrow> nat list \<Rightarrow> jstring \<Rightarrow> store" where
  "updateSegmentProjects st ids p =
     st\<lparr>activitySegments :=
          map (\<lambda>s. case seg_id s of
                      None \<Rightarrow> s
                    | Some i \<Rightarrow> if i \<in> set ids then s\<lparr>project := Some p\<rparr> else s)
              (activitySegments st)\<rparr>"

definition insertMicroSummary :: "store \<Rightarrow> MicroSummary \<Rightarrow> nat \<times> store" where
  "insertMicroSummary st m =
     (Suc (length (microSummaries st)), st\<lparr>microSummaries := microSummaries st @ [m]\<rparr>)"

definition getMicroSummaries :: "store \<Rightarrow> int \<Rightarrow> int \<Rightarrow> MicroSummary list" where
  "getMicroSummaries st a b =
     filter (\<lambda>m. a \<le> m_startTime m \<and> m_endTime m \<le> b) (microSummaries st)"

definition insertSessionSummary :: "store \<Rightarrow> SessionSummary \<Rightarrow> nat \<times> store" where
  "insertSessionSummary st x =
     (Suc (length (sessionSummaries st)), st\<lparr>sessionSummaries := sessionSummaries st @ [x]\<rparr>)"

definition getSessionSummaries :: "store \<Rightarrow> jstring \<Rightarrow> SessionSummary list" where
  "getSessionSummaries st d = filter (\<lambda>x. ss_date x = d) (sessionSummaries st)"

definition upsertDailySummary :: "store \<Rightarrow> DailySummary \<Rightarrow> store" where
  "upsertDailySummary st d =
     st\<lparr>dailySummaries := filter (\<lambda>x. ds_date x \<noteq> ds_date d) (dailySummaries st) @ [d]\<rparr>"

definition getRawEvents :: "store \<Rightarrow> int \<Rightarrow> int \<Rightarrow> RawEvent list" where
  "getRawEvents st a b = filter (\<lambda>e. a \<le> timestamp e \<and> timestamp e \<le> b) (rawEvents st)"

definition getCachedDeepDive :: "store \<Rightarrow> jstring \<Rightarrow> DeepDiveResult option" where
  "getCachedDeepDive st k = map_of (deepDives st) k"

definition cacheDeepDive :: "store \<Rightarrow> jstring \<Rightarrow> DeepDiveResult \<Rightarrow> store" where
  "cacheDeepDive st k r = st\<lparr>deepDives := (k, r) # deepDives st\<rparr>"

section \<open>Event ingestor\<close>

record EventGroup =
  g_appName :: "jstring option"
  g_appCategory :: "AppCategory option"
  events :: "RawEvent list"

definition hasAppInfo :: "RawEvent \<Rightarrow> bool" where
  "hasAppInfo event =
     (channel event = scene_index \<or> channel event = visual_index \<or> channel event = alert)"

definition newGroup :: "RawEvent \<Rightarrow> EventGroup" where
  "newGroup event =
     \<lparr>g_appName = appName event, g_appCategory = appCategory event, events = [event]\<rparr>"

text \<open>
  The loop of \<open>groupByApp\<close>: \<open>groups\<close> are the runs already closed, \<open>current\<close> is the
  run being filled (\<open>null\<close> before the first event).
\<close>

fun groupLoop :: "RawEvent list \<Rightarrow> EventGroup list \<Rightarrow> EventGroup option \<Rightarrow> EventGroup list" where
  "groupLoop [] groups current =
     (case current of None \<Rightarrow> groups | Some c \<Rightarrow> groups @ [c])"
| "groupLoop (event # rest) groups current =
     (if hasAppInfo event \<and> truthyStr (appName event)
         \<and> (case current of None \<Rightarrow> True | Some c \<Rightarrow> appName event \<noteq> g_appName c)
      then groupLoop rest (case current of None \<Rightarrow> groups | Some c \<Rightarrow> groups @ [c])
             (Some (newGroup event))
      else (case current of
              Some c \<Rightarrow> groupLoop rest groups (Some (c\<lparr>events := events c @ [event]\<rparr>))
            | None \<Rightarrow> groupLoop rest groups (Some (newGroup event))))"

definition groupByApp :: "RawEvent list \<Rightarrow> EventGroup list" where
  "groupByApp evs = groupLoop evs [] None"

definition sceneTextsOf :: "RawEvent list \<Rightarrow> jstring list" where
  "sceneTextsOf es =
     List.map_filter
       (\<lambda>e. if (channel e = scene_index \<or> channel e = visual_index) \<and> truthyStr (summaryText e)
             then summaryText e else None) es"

definition transcriptPartsOf :: "RawEvent list \<Rightarrow> jstring list" where
  "transcriptPartsOf es =
     List.map_filter
       (\<lambda>e. if channel e = transcript \<and> truthyStr (summaryText e) then summaryText e else None) es"

text \<open>The segment built for one group whose events are \<open>e # es\<close>.\<close>

definition mkSegment :: "jstring \<Rightarrow> bool \<Rightarrow> EventGroup \<Rightarrow> RawEvent \<Rightarrow> RawEvent list \<Rightarrow> ActivitySegment" where
  "mkSegment sid idle grp e es =
     (let sceneTexts = sceneTextsOf (e # es);
          transcriptParts = transcriptPartsOf (e # es);
          snippet = take 300 (join (asc '' '') transcriptParts)
      in \<lparr>seg_id = None,
          seg_sessionId = sid,
          startTime = timestamp e,
          endTime = timestamp (last (e # es)),
          primaryApp = (if truthyStr (g_appName grp) then g_appName grp else None),
          seg_appCategory = g_appCategory grp,
          seg_action = inferAction sceneTexts,
          project = inferProject sceneTexts,
          seg_context = (case sceneTexts of [] \<Rightarrow> None | t # _ \<Rightarrow> Some (take 200 t)),
          transcriptSnippet = (if snippet = [] then None else Some snippet),
          eventCount = length (e # es),
          isIdle = idle\<rparr>)"

record ingestor =
  buffer :: "RawEvent list"
  ing_activeSessionId :: "jstring option"
  totalIngested :: nat
  totalFlushed :: nat

text \<open>
  The loop of \<open>flushToSegments\<close> over the groups: the store and the number of segments
  created so far are threaded through.
\<close>

fun insertGroups :: "jstring \<Rightarrow> bool \<Rightarrow> EventGroup list \<Rightarrow> store \<times> nat \<Rightarrow> store \<times> nat" where
  "insertGroups sid idle [] acc = acc"
| "insertGroups sid idle (grp # rest) (st, segmentsCreated) =
     (case events grp of
        [] \<Rightarrow> insertGroups sid idle rest (st, segmentsCreated)
      | e # es \<Rightarrow>
          insertGroups sid idle rest
            (snd (insertActivitySegment st (mkSegment sid idle grp e es)), Suc segmentsCreated))"

text \<open>\<open>idle\<close> is the verdict of \<open>isCurrentlyIdle()\<close>, read once per flush.\<close>

definition flushToSegments :: "bool \<Rightarrow> ingestor \<times> store \<Rightarrow> ingestor \<times> store" where
  "flushToSegments idle s =
     (case s of (ing, st) \<Rightarrow>
        if \<not> truthyStr (ing_activeSessionId ing) \<or> buffer ing = [] then (ing, st)
        else (case ing_activeSessionId ing of
                None \<Rightarrow> (ing, st)
              | Some sid \<Rightarrow>
                  (let evs = buffer ing;
                       groups = groupByApp evs;
                       (st', segmentsCreated) = insertGroups sid idle groups (st, 0)
                   in (ing\<lparr>buffer := [], totalFlushed := totalFlushed ing + segmentsCreated\<rparr>, st'))))"

text \<open>
  The end of \<open>ingestEvent\<close> (after the dispatch on the channel has produced the
  application name, the category and the text of an accepted message): the event is
  stamped with the clock, in seconds, stored, and pushed on the buffer. A message that
  arrives without an active session is dropped.
\<close>

definition ingestEvent ::
  "int \<Rightarrow> channel \<Rightarrow> jstring option \<Rightarrow> AppCategory option \<Rightarrow> jstring option \<Rightarrow> jstring
     \<Rightarrow> ingestor \<times> store \<Rightarrow> ingestor \<times> store" where
  "ingestEvent nowSecs ch app cat txt raw s =
     (case s of (ing, st) \<Rightarrow>
        (case ing_activeSessionId ing of
           None \<Rightarrow> (ing, st)
         | Some sid \<Rightarrow>
             if sid = [] then (ing, st)
             else (let event = \<lparr>sessionId = sid, timestamp = nowSecs, channel = ch, appName = app,
                                 appCategory = cat, summaryText = txt, rawJson = raw\<rparr>
                   in (ing\<lparr>buffer := buffer ing @ [event], totalIngested := Suc (totalIngested ing)\<rparr>,
                       insertRawEvent st event))))"

text \<open>\<open>startIngestion\<close> and \<open>stopIngestion\<close>, without the timer they arm and clear.\<close>

definition startIngestion :: "jstring \<Rightarrow> ingestor \<times> store \<Rightarrow> ingestor \<times> store" where
  "startIngestion sid s =
     (case s of (ing, st) \<Rightarrow>
        (ing\<lparr>ing_activeSessionId := Some sid, buffer := [], totalIngested := 0, totalFlushed := 0\<rparr>,
         st))"

definition stopIngestion :: "bool \<Rightarrow> ingestor \<times> store \<Rightarrow> ingestor \<times> store" where
  "stopIngestion idle s =
     (case (if buffer (fst s) \<noteq> [] then flushToSegments idle s else s) of
        (ing, st) \<Rightarrow> (ing\<lparr>ing_activeSessionId := None\<rparr>, st))"


text \<open>
  What the flush loop does with one group, and the ids the store gives to the segments
  inserted one after the other when it already holds \<open>k\<close> of them.
\<close>

definition groupSegment :: "jstring \<Rightarrow> bool \<Rightarrow> EventGroup \<Rightarrow> ActivitySegment option" where
  "groupSegment sid idle g =
     (case events g of [] \<Rightarrow> None | e # es \<Rightarrow> Some (mkSegment sid idle g e es))"

fun renumber :: "nat \<Rightarrow> ActivitySegment list \<Rightarrow> ActivitySegment list" where
  "renumber k [] = []"
| "renumber k (s # ss) = s\<lparr>seg_id := Some (Suc k)\<rparr> # renumber (Suc k) ss"

text \<open>The segments that one flush adds to the store.\<close>

definition flushedSegments :: "bool \<Rightarrow> ingestor \<Rightarrow> store \<Rightarrow> ActivitySegment list" where
  "flushedSegments idle ing st =
     drop (length (activitySegments st)) (activitySegments (snd (flushToSegments idle (ing, st))))"

text \<open>
  The states of the ingestor that the exported operations reach from the initial module
  state (empty buffer, no session), over any store.
\<close>

inductive reachable :: "ingestor \<times> store \<Rightarrow> bool" where
  initial: "reachable (\<lparr>buffer = [], ing_activeSessionId = None, totalIngested = 0, totalFlushed = 0\<rparr>, st)"
| started: "reachable s \<Longrightarrow> reachable (startIngestion sid s)"
| stopped: "reachable s \<Longrightarrow> reachable (stopIngestion idle s)"
| ingested: "reachable s \<Longrightarrow> reachable (ingestEvent nowSecs ch app cat txt raw s)"
| flushedOnce: "reachable s \<Longrightarrow> reachable (flushToSegments idle s)"

section \<open>Summarizer\<close>

subsection \<open>Values decoded from the model's output\<close>

fun truthy :: "json \<Rightarrow> bool" where
  "truthy JNull = False"
| "truthy (JBool b) = b"
| "truthy (JNum n) = (n \<noteq> 0)"
| "truthy (JStr s) = (s \<noteq> [])"
| "truthy (JArr xs) = True"
| "truthy (JObj kvs) = True"

text \<open>
  \<open>parsed.k\<close> for a value other than \<open>null\<close>: the property of a decoded object (which
  has one entry per key), and \<open>undefined\<close> for every other value. On \<open>null\<close> the read
  throws a TypeError; the callers test for \<open>JNull\<close> before their first read.
\<close>

fun getProp :: "json \<Rightarrow> string \<Rightarrow> json option" where
  "getProp (JObj kvs) k = map_of kvs (asc k)"
| "getProp v k = None"

text \<open>\<open>v || d\<close>\<close>

fun orElse :: "json option \<Rightarrow> json \<Rightarrow> json" where
  "orElse None d = d"
| "orElse (Some v) d = (if truthy v then v else d)"

text \<open>\<open>content || d\<close> for the content of a completion, a string or null.\<close>

fun contentOr :: "jstring option \<Rightarrow> string \<Rightarrow> jstring" where
  "contentOr None d = asc d"
| "contentOr (Some t) d = (if t = [] then asc d else t)"

text \<open>
  \<open>v.slice(0, 100)\<close> in the log line that follows an insert: strings and arrays have
  \<open>slice\<close>; on any other value the call throws a TypeError.
\<close>

fun hasSlice :: "json \<Rightarrow> bool" where
  "hasSlice (JStr s) = True"
| "hasSlice (JArr xs) = True"
| "hasSlice v = False"

subsection \<open>The completion API and the other collaborators\<close>

text \<open>
  What \<open>await llm.chat.completions.create(...)\<close> followed by
  \<open>response.choices[0].message.content\<close> gives: an exception (with its text), or the
  content, which may be null.
\<close>

datatype llm_reply = Throws jstring | Content "jstring option"

text \<open>
  The collaborators that are not code of the repository. \<open>reply n\<close> is the answer of the
  completion API to the call number \<open>n\<close> (any behaviour of the model is some such
  function); \<open>jsonDecode\<close> is \<open>JSON.parse\<close> after \<open>stripCodeFences\<close>, with \<open>None\<close> for
  a SyntaxError; \<open>toText\<close> is the string conversion of a template literal;
  \<open>mapSections dayStart v\<close> is \<open>v.map(...)\<close> of \<open>generateDailySummary\<close>, which builds the
  drill-down sections and throws (\<open>None\<close>) when \<open>v\<close> is not an array or holds \<open>null\<close>.
\<close>

record env =
  reply :: "nat \<Rightarrow> llm_reply"
  jsonDecode :: "jstring \<Rightarrow> json option"
  toText :: "json \<Rightarrow> jstring"
  mapSections :: "int \<Rightarrow> json \<Rightarrow> DrillDownSection list option"

text \<open>
  The module state of the summarizer, with the store. \<open>llm\<close> tells whether the client
  has been initialised. \<open>apiCalls\<close> is not a variable of the source: it counts the calls
  of the completion API made so far.
\<close>

record summarizer =
  db :: store
  llm :: bool
  activeSessionId :: "jstring option"
  sessionStartTime :: int
  lastMicroTime :: int
  lastSessionSummaryTime :: int
  microCount :: nat
  sessionCount :: nat
  apiCalls :: nat

datatype failure = CompletionFailed jstring | JsonSyntaxError | TypeError

text \<open>
  The first lines of the \<open>try\<close> block of the three summary generators and of the
  on-demand overview: the completion call, \<open>content || '{}'\<close>, and the decoding.
\<close>

definition requestJson :: "env \<Rightarrow> summarizer \<Rightarrow> failure + json" where
  "requestJson e s =
     (case reply e (apiCalls s) of
        Throws msg \<Rightarrow> Inl (CompletionFailed msg)
      | Content c \<Rightarrow>
          (case jsonDecode e (contentOr c ''{}'') of
             None \<Rightarrow> Inl JsonSyntaxError
           | Some parsed \<Rightarrow> Inr parsed))"

subsection \<open>Durations\<close>

function natDigits :: "nat \<Rightarrow> jstring" where
  "natDigits n = (if n < 10 then [48 + n] else natDigits (n div 10) @ [48 + n mod 10])"
  by pat_completeness auto
termination
  by (relation "measure id") auto

declare natDigits.simps [simp del]

text \<open>The decimal text of an integer, as a template literal prints it.\<close>

definition decimal :: "int \<Rightarrow> jstring" where
  "decimal i = (if i < 0 then 45 # natDigits (nat (- i)) else natDigits (nat i))"

definition fmtDuration :: "int \<Rightarrow> jstring" where
  "fmtDuration secs =
     (if secs < 60 then decimal secs @ asc ''s''
      else (let m = secs div 60; s = secs mod 60
            in if s > 0 then decimal m @ asc ''m '' @ decimal s @ asc ''s''
               else decimal m @ asc ''m''))"

fun setKey :: "jstring \<Rightarrow> int \<Rightarrow> durations \<Rightarrow> durations" where
  "setKey k v [] = [(k, v)]"
| "setKey k v ((k', v') # rest) = (if k' = k then (k, v) # rest else (k', v') # setKey k v rest)"

text \<open>\<open>obj[k] = (obj[k] || 0) + d\<close>\<close>

definition addDuration :: "durations \<Rightarrow> jstring \<Rightarrow> int \<Rightarrow> durations" where
  "addDuration obj k d =
     setKey k ((case map_of obj k of None \<Rightarrow> 0 | Some v \<Rightarrow> if v \<noteq> 0 then v else 0) + d) obj"

subsection \<open>generateMicroSummary\<close>

text \<open>\<open>s.primaryApp || 'Unknown'\<close>\<close>

definition appOf :: "ActivitySegment \<Rightarrow> jstring" where
  "appOf s = (case primaryApp s of
                None \<Rightarrow> asc ''Unknown''
              | Some a \<Rightarrow> if a = [] then asc ''Unknown'' else a)"

fun appBreakdownLoop :: "ActivitySegment list \<Rightarrow> durations \<Rightarrow> durations" where
  "appBreakdownLoop [] computedAppBreakdown = computedAppBreakdown"
| "appBreakdownLoop (s # rest) computedAppBreakdown =
     appBreakdownLoop rest (addDuration computedAppBreakdown (appOf s) (endTime s - startTime s))"

definition llmProjectOf :: "json \<Rightarrow> jstring option" where
  "llmProjectOf parsed =
     (case getProp parsed ''project'' of
        Some (JStr p) \<Rightarrow> if p \<noteq> [] \<and> toLowerCase p \<noteq> asc ''null'' then Some (trim p) else None
      | _ \<Rightarrow> None)"

definition segmentIdsOf :: "ActivitySegment list \<Rightarrow> nat list" where
  "segmentIdsOf segments = filter (\<lambda>i. i \<noteq> 0) (List.map_filter seg_id segments)"

text \<open>The micro-summary built from the decoded object, for segments \<open>seg0 # others\<close>.\<close>

definition mkMicro :: "jstring \<Rightarrow> ActivitySegment \<Rightarrow> ActivitySegment list \<Rightarrow> json \<Rightarrow> MicroSummary" where
  "mkMicro sid seg0 others parsed =
     \<lparr>m_sessionId = sid,
      m_startTime = startTime seg0,
      m_endTime = endTime (last (seg0 # others)),
      m_summary = orElse (getProp parsed ''summary'') (JStr (asc ''No summary available'')),
      appBreakdown = appBreakdownLoop (seg0 # others) [],
      primaryActivity = getProp parsed ''primary_activity'',
      m_productivityLabel = orElse (getProp parsed ''productivity_label'') (JStr (asc ''neutral'')),
      m_project = (if truthyStr (llmProjectOf parsed) then llmProjectOf parsed else None),
      segmentIds = segmentIdsOf (seg0 # others)\<rparr>"

definition generateMicroSummary :: "env \<Rightarrow> int \<Rightarrow> summarizer \<Rightarrow> MicroSummary option \<times> summarizer" where
  "generateMicroSummary e now s =
     (if \<not> llm s then (None, s)
      else (case activeSessionId s of
         None \<Rightarrow> (None, s)
       | Some sid \<Rightarrow>
           if sid = [] then (None, s)
           else (case getUnprocessedSegmentsForMicro (db s) sid (lastMicroTime s) of
              [] \<Rightarrow> (None, s)
            | seg0 # others \<Rightarrow>
                (let s1 = s\<lparr>apiCalls := Suc (apiCalls s)\<rparr>
                 in case requestJson e s of
                      Inl err \<Rightarrow> (None, s1)
                    | Inr parsed \<Rightarrow>
                        if parsed = JNull then (None, s1)
                        else (let micro = mkMicro sid seg0 others parsed;
                                  db1 = (case llmProjectOf parsed of
                                           None \<Rightarrow> db s
                                         | Some p \<Rightarrow>
                                             if p = [] then db s
                                             else updateSegmentProjects (db s) (segmentIds micro) p);
                                  db2 = snd (insertMicroSummary db1 micro);
                                  s2 = s1\<lparr>db := db2, lastMicroTime := now,
                                          microCount := Suc (microCount s)\<rparr>
                              in (if hasSlice (m_summary micro) then Some micro else None, s2))))))"

subsection \<open>generateSessionSummary\<close>

text \<open>\<open>/\.com$|\.org$|\.io$|\.dev$/i\<close>\<close>

definition appSuffixRx :: rx where
  "appSuffixRx = alts (map (\<lambda>t. seqs [Chr isDot, ilit t, Eol]) [''com'', ''org'', ''io'', ''dev''])"

text \<open>\<open>s.replace(r, '')\<close> without the \<open>g\<close> flag: the first match is cut out.\<close>

fun removeFirst :: "rx \<Rightarrow> jstring \<Rightarrow> jstring" where
  "removeFirst r [] = []"
| "removeFirst r (c # cs) =
     (case rmatch r (c # cs, None) of
        [] \<Rightarrow> c # removeFirst r cs
      | (rest, g) # alternatives \<Rightarrow> rest)"

definition normalizeApp :: "jstring \<Rightarrow> jstring" where
  "normalizeApp app = removeFirst appSuffixRx app"

fun appStatsEntries :: "durations \<Rightarrow> durations \<Rightarrow> durations" where
  "appStatsEntries [] computedAppStats = computedAppStats"
| "appStatsEntries ((app, secs) # rest) computedAppStats =
     appStatsEntries rest (addDuration computedAppStats (normalizeApp app) secs)"

fun appStatsLoop :: "MicroSummary list \<Rightarrow> durations \<Rightarrow> durations" where
  "appStatsLoop [] computedAppStats = computedAppStats"
| "appStatsLoop (m # rest) computedAppStats =
     appStatsLoop rest (appStatsEntries (appBreakdown m) computedAppStats)"

fun projectsLoop :: "ActivitySegment list \<Rightarrow> durations \<Rightarrow> durations" where
  "projectsLoop [] computedProjects = computedProjects"
| "projectsLoop (seg # rest) computedProjects =
     projectsLoop rest
       (case project seg of
          None \<Rightarrow> computedProjects
        | Some p \<Rightarrow>
            if p = [] then computedProjects
            else addDuration computedProjects (trim p) (endTime seg - startTime seg))"

definition activityLine :: "env \<Rightarrow> MicroSummary \<Rightarrow> jstring" where
  "activityLine e m =
     toText e (orElse (primaryActivity m) (JStr (asc ''activity'')))
       @ asc '' ('' @ fmtDuration (m_endTime m - m_startTime m) @ asc '')''"

text \<open>The session summary built from the decoded object, for micro-summaries \<open>m0 # others\<close>.\<close>

definition mkSession ::
  "env \<Rightarrow> store \<Rightarrow> jstring \<Rightarrow> jstring \<Rightarrow> MicroSummary \<Rightarrow> MicroSummary list \<Rightarrow> json \<Rightarrow> SessionSummary" where
  "mkSession e st sid today m0 others parsed =
     \<lparr>ss_sessionId = sid,
      ss_date = today,
      ss_startTime = m_startTime m0,
      ss_endTime = m_endTime (last (m0 # others)),
      ss_summary = orElse (getProp parsed ''summary'') (JStr (asc ''No summary available'')),
      keyActivities = map (activityLine e) (m0 # others),
      projects = projectsLoop
                   (getActivitySegments st (m_startTime m0) (m_endTime (last (m0 # others)))) [],
      appStats = appStatsLoop (m0 # others) [],
      ss_productivityLabel = orElse (getProp parsed ''productivity_label'') (JStr (asc ''neutral''))\<rparr>"

text \<open>
  \<open>nowQuery\<close> and \<open>now\<close> are the two readings of the clock, \<open>today\<close> is
  \<open>db.todayDateString()\<close>.
\<close>

definition generateSessionSummary ::
  "env \<Rightarrow> int \<Rightarrow> int \<Rightarrow> jstring \<Rightarrow> summarizer \<Rightarrow> SessionSummary option \<times> summarizer" where
  "generateSessionSummary e nowQuery now today s =
     (if \<not> llm s then (None, s)
      else (case activeSessionId s of
         None \<Rightarrow> (None, s)
       | Some sid \<Rightarrow>
           if sid = [] then (None, s)
           else (case getMicroSummaries (db s) (lastSessionSummaryTime s) nowQuery of
              [] \<Rightarrow> (None, s)
            | m0 # others \<Rightarrow>
                (let s1 = s\<lparr>apiCalls := Suc (apiCalls s)\<rparr>
                 in case requestJson e s of
                      Inl err \<Rightarrow> (None, s1)
                    | Inr parsed \<Rightarrow>
                        if parsed = JNull then (None, s1)
                        else (let session = mkSession e (db s) sid today m0 others parsed;
                                  db1 = snd (insertSessionSummary (db s) session);
                                  s2 = s1\<lparr>db := db1, lastSessionSummaryTime := now,
                                          sessionCount := Suc (sessionCount s)\<rparr>
                              in (if hasSlice (ss_summary session) then Some session else None,
                                  s2))))))"

subsection \<open>generateDailySummary\<close>

text \<open>
  The deterministic aggregates of the day, read from the store before the model is asked
  (\<open>getAppUsageForDate\<close>, \<open>getProjectsForDate\<close>, \<open>getTotalTrackedForDate\<close>,
  \<open>getIdleSecsForDate\<close>, \<open>getProductiveSecsForDate\<close>).
\<close>

record dayAggregates =
  appUsage :: durations
  dayProjects :: durations
  totalTracked :: int
  totalIdle :: int
  productive :: int
  distracted :: int

definition mkDaily ::
  "jstring \<Rightarrow> dayAggregates \<Rightarrow> json \<Rightarrow> DrillDownSection list \<Rightarrow> DailySummary" where
  "mkDaily date agg parsed sections =
     \<lparr>ds_date = date,
      headline = orElse (getProp parsed ''headline'') (JStr (asc ''Daily Summary'')),
      ds_summary = orElse (getProp parsed ''summary'') (JStr (asc ''No summary available'')),
      highlights = orElse (getProp parsed ''highlights'') (JArr []),
      improvements = orElse (getProp parsed ''improvements'') (JArr []),
      drillDownSections = sections,
      totalTrackedSecs = totalTracked agg,
      totalIdleSecs = totalIdle agg,
      totalProductiveSecs = productive agg,
      totalDistractedSecs = distracted agg,
      topApps = appUsage agg,
      topProjects = dayProjects agg\<rparr>"

text \<open>\<open>dayStart\<close> is local midnight of \<open>date\<close>, in seconds.\<close>

definition generateDailySummary ::
  "env \<Rightarrow> dayAggregates \<Rightarrow> int \<Rightarrow> jstring \<Rightarrow> summarizer \<Rightarrow> DailySummary option \<times> summarizer" where
  "generateDailySummary e agg dayStart date s =
     (if \<not> llm s then (None, s)
      else (let sessions = getSessionSummaries (db s) date;
                micros = (if sessions = [] then getMicroSummaries (db s) dayStart (dayStart + 86400)
                          else [])
            in if sessions = [] \<and> micros = [] then (None, s)
               else (let s1 = s\<lparr>apiCalls := Suc (apiCalls s)\<rparr>
                     in case requestJson e s of
                          Inl err \<Rightarrow> (None, s1)
                        | Inr parsed \<Rightarrow>
                            if parsed = JNull then (None, s1)
                            else (case mapSections e dayStart
                                         (orElse (getProp parsed ''sections'') (JArr [])) of
                                    None \<Rightarrow> (None, s1)
                                  | Some sections \<Rightarrow>
                                      (let daily = mkDaily date agg parsed sections
                                       in (Some daily,
                                           s1\<lparr>db := upsertDailySummary (db s) daily\<rparr>))))))"

subsection \<open>generateDeepDive\<close>

definition cacheKeyOf :: "jstring option \<Rightarrow> int \<Rightarrow> int \<Rightarrow> jstring" where
  "cacheKeyOf sid start endT =
     (case sid of None \<Rightarrow> asc ''none'' | Some i \<Rightarrow> if i = [] then asc ''none'' else i)
       @ asc '':'' @ decimal start @ asc '':'' @ decimal endT"

definition generateDeepDive :: "env \<Rightarrow> int \<Rightarrow> int \<Rightarrow> summarizer \<Rightarrow> DeepDiveResult \<times> summarizer" where
  "generateDeepDive e start endT s =
     (let cacheKey = cacheKeyOf (activeSessionId s) start endT
      in case getCachedDeepDive (db s) cacheKey of
           Some cached \<Rightarrow> (cached, s)
         | None \<Rightarrow>
             if \<not> llm s
             then (\<lparr>analysis = asc ''LLM not configured. Cannot generate deep dive.''\<rparr>, s)
             else if getRawEvents (db s) start endT = []
             then (\<lparr>analysis = asc ''No events recorded for this time range.''\<rparr>, s)
             else (let s1 = s\<lparr>apiCalls := Suc (apiCalls s)\<rparr>
                   in case reply e (apiCalls s) of
                        Content c \<Rightarrow>
                          (let result = \<lparr>analysis = contentOr c ''Analysis unavailable.''\<rparr>
                           in (result, s1\<lparr>db := cacheDeepDive (db s) cacheKey result\<rparr>))
                      | Throws msg \<Rightarrow>
                          (\<lparr>analysis = asc ''Error generating analysis: '' @ msg\<rparr>, s1)))"

subsection \<open>generateOnDemandSummary\<close>

text \<open>
  \<open>nowFlush\<close> is the clock read by the forced micro-summary, \<open>dayStart\<close> local midnight of
  today and \<open>now\<close> the clock read afterwards.
\<close>

definition generateOnDemandSummary ::
  "env \<Rightarrow> int \<Rightarrow> int \<Rightarrow> int \<Rightarrow> summarizer \<Rightarrow> json \<times> summarizer" where
  "generateOnDemandSummary e nowFlush dayStart now s =
     (let s1 = snd (generateMicroSummary e nowFlush s);
          allMicros = getMicroSummaries (db s1) dayStart (now + 60)
      in case allMicros of
           [] \<Rightarrow> (JStr (asc ''No activity recorded yet.''), s1)
         | [m] \<Rightarrow> (m_summary m, s1)
         | m # others \<Rightarrow>
             if \<not> llm s1 then (m_summary (last allMicros), s1)
             else (let s2 = s1\<lparr>apiCalls := Suc (apiCalls s1)\<rparr>
                   in case requestJson e s1 of
                        Inl err \<Rightarrow> (m_summary (last allMicros), s2)
                      | Inr parsed \<Rightarrow>
                          if parsed = JNull then (m_summary (last allMicros), s2)
                          else (orElse (getProp parsed ''summary'') (m_summary (last allMicros)),
                                s2)))"

section \<open>Notions used in the statements\<close>

text \<open>
  The persistent state of the summarizer is the same in \<open>s\<close> and \<open>s'\<close>: the store (summary
  rows, segments and their projects, deep-dive cache) and the two watermarks.
\<close>

definition samePersistentState :: "summarizer \<Rightarrow> summarizer \<Rightarrow> bool" where
  "samePersistentState s s' =
     (db s' = db s \<and> lastMicroTime s' = lastMicroTime s
      \<and> lastSessionSummaryTime s' = lastSessionSummaryTime s)"

text \<open>
  The micro-summaries of today that \<open>generateOnDemandSummary\<close> reads after the forced
  flush.
\<close>

definition todaysMicros :: "env \<Rightarrow> int \<Rightarrow> int \<Rightarrow> int \<Rightarrow> summarizer \<Rightarrow> MicroSummary list" where
  "todaysMicros e nowFlush dayStart now s =
     getMicroSummaries (db (snd (generateMicroSummary e nowFlush s))) dayStart (now + 60)"




text \<open>
  Modelled from the spec: the type \<open>ProductivityLabel\<close> is declared in \<open>shared/types\<close>,
  which is not among the sources; section 4.3 gives the closed set.
\<close>

definition LABELS :: "json list" where
  "LABELS = [JStr (asc ''productive''), JStr (asc ''neutral''), JStr (asc ''distracted'')]"

text \<open>\<open>(parsed.productivity_label as ProductivityLabel) || 'neutral'\<close>, as \<open>mkMicro\<close> and \<open>mkSession\<close> have it.\<close>

definition labelOf :: "json \<Rightarrow> json" where
  "labelOf parsed = orElse (getProp parsed ''productivity_label'') (JStr (asc ''neutral''))"


text \<open>
  The words a regular expression matches, whatever the order in which a matcher tries the
  alternatives: \<open>accepts r w\<close> when \<open>r\<close> can consume exactly \<open>w\<close> (for \<open>$\<close>, at the end
  of the input).
\<close>

inductive accepts :: "rx \<Rightarrow> jstring \<Rightarrow> bool" where
  aChr: "P c \<Longrightarrow> accepts (Chr P) [c]"
| aEmp: "accepts Emp []"
| aCat: "accepts a u \<Longrightarrow> accepts b v \<Longrightarrow> accepts (Cat a b) (u @ v)"
| aAltL: "accepts a w \<Longrightarrow> accepts (Alt a b) w"
| aAltR: "accepts b w \<Longrightarrow> accepts (Alt a b) w"
| aRep: "n \<le> length w \<Longrightarrow> list_all P w \<Longrightarrow> accepts (Rep n P) w"
| aOptSome: "accepts a w \<Longrightarrow> accepts (Opt a) w"
| aOptNone: "accepts (Opt a) []"
| aCap: "accepts a w \<Longrightarrow> accepts (Cap a) w"
| aEol: "accepts Eol []"







section \<open>Example data\<close>

definition exSid :: jstring where
  "exSid = asc ''s1''"

definition exScene :: "int \<Rightarrow> string \<Rightarrow> RawEvent" where
  "exScene t app =
     \<lparr>sessionId = exSid, timestamp = t, channel = scene_index, appName = Some (asc app),
      appCategory = Some development, summaryText = Some (asc ''typing''), rawJson = []\<rparr>"

definition exTranscript :: "int \<Rightarrow> RawEvent" where
  "exTranscript t =
     \<lparr>sessionId = exSid, timestamp = t, channel = transcript, appName = None,
      appCategory = None, summaryText = Some (asc ''hello''), rawJson = []\<rparr>"

definition exBuffer :: "RawEvent list" where
  "exBuffer = [exScene 100 ''VS Code'', exTranscript 105, exScene 110 ''Chrome'']"

definition exIngestor :: ingestor where
  "exIngestor =
     \<lparr>buffer = exBuffer, ing_activeSessionId = Some exSid, totalIngested = 3, totalFlushed = 0\<rparr>"

definition emptyStore :: store where
  "emptyStore =
     \<lparr>rawEvents = [], activitySegments = [], microSummaries = [], sessionSummaries = [],
      dailySummaries = [], deepDives = []\<rparr>"

definition exSegment :: "nat \<Rightarrow> string \<Rightarrow> int \<Rightarrow> int \<Rightarrow> ActivitySegment" where
  "exSegment i app t0 t1 =
     \<lparr>seg_id = Some i, seg_sessionId = exSid, startTime = t0, endTime = t1,
      primaryApp = Some (asc app), seg_appCategory = Some development, seg_action = asc ''coding'',
      project = None, seg_context = None, transcriptSnippet = None, eventCount = 2,
      isIdle = False\<rparr>"

definition exSegments :: "ActivitySegment list" where
  "exSegments = [exSegment 1 ''VS Code'' 100 160, exSegment 2 ''Chrome'' 160 200,
                 exSegment 3 ''VS Code'' 200 230]"

definition exMicro :: "int \<Rightarrow> int \<Rightarrow> string \<Rightarrow> durations \<Rightarrow> MicroSummary" where
  "exMicro t0 t1 txt apps =
     \<lparr>m_sessionId = exSid, m_startTime = t0, m_endTime = t1, m_summary = JStr (asc txt),
      appBreakdown = apps, primaryActivity = Some (JStr (asc ''coding'')),
      m_productivityLabel = JStr (asc ''productive''), m_project = None, segmentIds = []\<rparr>"

definition exMicros :: "MicroSummary list" where
  "exMicros = [exMicro 100 200 ''Coding'' [(asc ''VS Code'', 100)],
               exMicro 200 300 ''Browsing'' [(asc ''github.com'', 60), (asc ''github'', 40)]]"

definition exSummarizer :: "store \<Rightarrow> summarizer" where
  "exSummarizer st =
     \<lparr>db = st, llm = True, activeSessionId = Some exSid, sessionStartTime = 0, lastMicroTime = 0,
      lastSessionSummaryTime = 0, microCount = 0, sessionCount = 0, apiCalls = 0\<rparr>"

definition exEnv :: "(nat \<Rightarrow> llm_reply) \<Rightarrow> json option \<Rightarrow> env" where
  "exEnv r v = \<lparr>reply = r, jsonDecode = (\<lambda>t. v), toText = (\<lambda>x. []), mapSections = (\<lambda>d x. Some [])\<rparr>"

definition exAggregates :: dayAggregates where
  "exAggregates = \<lparr>appUsage = [], dayProjects = [], totalTracked = 0, totalIdle = 0,
     productive = 0, distracted = 0\<rparr>"

definition exOddLabel :: json where
  "exOddLabel = JObj [(asc ''summary'', JStr (asc ''Wrote code'')),
                      (asc ''productivity_label'', JStr (asc ''very productive''))]"

definition exFlaky :: "nat \<Rightarrow> llm_reply" where
  "exFlaky n = (if n = 0 then Throws (asc ''timeout'') else Content (Some (asc ''You were coding.'')))"




section \<open>The event ingestor: grouping and flushing\<close>

lemma groupLoop_acc: "groupLoop es gs cur = gs @ groupLoop es [] cur"
proof (induction es arbitrary: gs cur)
  case Nil
  show ?case by (simp split: option.splits)
next
  case (Cons e es)
  have A: "\<And>gs' c. groupLoop es gs' c = gs' @ groupLoop es [] c" by (rule Cons.IH)
  show ?case
  proof (cases cur)
    case None
    then show ?thesis using A[of gs "Some (newGroup e)"] by simp
  next
    case (Some c)
    show ?thesis
      using A[of "gs @ [c]" "Some (newGroup e)"] A[of "[c]" "Some (newGroup e)"]
            A[of gs "Some (c\<lparr>events := events c @ [e]\<rparr>)"] Some
      by simp
  qed
qed

lemma concat_groupLoop:
  "concat (map events (groupLoop es [] cur)) = (case cur of None \<Rightarrow> [] | Some c \<Rightarrow> events c) @ es"
proof (induction es arbitrary: cur)
  case Nil
  show ?case by (simp split: option.splits)
next
  case (Cons e es)
  show ?case
  proof (cases cur)
    case None
    then show ?thesis using Cons.IH[of "Some (newGroup e)"] by (simp add: newGroup_def)
  next
    case (Some c)
    show ?thesis
      using Cons.IH[of "Some (newGroup e)"] Cons.IH[of "Some (c\<lparr>events := events c @ [e]\<rparr>)"]
            groupLoop_acc[of es "[c]" "Some (newGroup e)"] Some
      by (simp add: newGroup_def)
  qed
qed

lemma nonempty_groupLoop:
  "(\<And>c. cur = Some c \<Longrightarrow> events c \<noteq> []) \<Longrightarrow> g \<in> set (groupLoop es [] cur) \<Longrightarrow> events g \<noteq> []"
proof (induction es arbitrary: cur)
  case Nil
  then show ?case by (auto split: option.splits)
next
  case (Cons e es)
  have N: "events (newGroup e) \<noteq> []" by (simp add: newGroup_def)
  show ?case
  proof (cases cur)
    case None
    then have "groupLoop (e # es) [] cur = groupLoop es [] (Some (newGroup e))" by simp
    then show ?thesis using Cons.IH[of "Some (newGroup e)"] Cons.prems(2) N by simp
  next
    case (Some c)
    show ?thesis
    proof (cases "hasAppInfo e \<and> truthyStr (appName e) \<and> appName e \<noteq> g_appName c")
      case True
      then have "g \<in> set ([c] @ groupLoop es [] (Some (newGroup e)))"
        using Cons.prems(2) Some groupLoop_acc[of es "[c]" "Some (newGroup e)"] by simp
      then show ?thesis using Cons.IH[of "Some (newGroup e)"] N Cons.prems(1)[OF Some] by auto
    next
      case False
      then have "g \<in> set (groupLoop es [] (Some (c\<lparr>events := events c @ [e]\<rparr>)))"
        using Cons.prems(2) Some by auto
      then show ?thesis using Cons.IH[of "Some (c\<lparr>events := events c @ [e]\<rparr>)"] by simp
    qed
  qed
qed





lemma sorted_runs:
  fixes xss :: "('a::linorder) list list"
  shows "sorted (concat xss) \<Longrightarrow> \<forall>xs\<in>set xss. xs \<noteq> [] \<Longrightarrow> sorted_wrt (\<lambda>a b. last a \<le> hd b) xss"
proof (induction xss)
  case Nil
  show ?case by simp
next
  case (Cons a xss)
  have S: "sorted a" "sorted (concat xss)" "\<forall>x\<in>set a. \<forall>y\<in>set (concat xss). x \<le> y"
    using Cons.prems(1) by (auto simp: sorted_append)
  have "\<forall>b\<in>set xss. last a \<le> hd b"
  proof
    fix b assume B: "b \<in> set xss"
    then have "b \<noteq> []" using Cons.prems(2) by simp
    then have "hd b \<in> set (concat xss)" using B by (auto intro!: bexI[of _ b])
    moreover have "last a \<in> set a" using Cons.prems(2) by simp
    ultimately show "last a \<le> hd b" using S(3) by blast
  qed
  then show ?case using Cons.IH S(2) Cons.prems(2) by simp
qed

lemma sorted_concat_parts:
  fixes xss :: "('a::linorder) list list"
  shows "sorted (concat xss) \<Longrightarrow> xs \<in> set xss \<Longrightarrow> sorted xs"
  by (induction xss) (auto simp: sorted_append)

lemma sorted_hd_last:
  fixes a :: "('a::linorder) list"
  shows "sorted a \<Longrightarrow> a \<noteq> [] \<Longrightarrow> hd a \<le> last a"
  by (cases a) (auto)

lemma insertGroups_eq:
  "insertGroups sid idle gs (st, n) =
     (st\<lparr>activitySegments := activitySegments st
           @ renumber (length (activitySegments st)) (List.map_filter (groupSegment sid idle) gs)\<rparr>,
      n + length (List.map_filter (groupSegment sid idle) gs))"
proof (induction gs arbitrary: st n)
  case Nil
  show ?case by (simp add: List.map_filter_simps)
next
  case (Cons g gs)
  show ?case
  proof (cases "events g")
    case Nil
    then show ?thesis using Cons.IH[of st n] by (simp add: List.map_filter_simps groupSegment_def)
  next
    case (Cons e es)
    then show ?thesis
      using Cons.IH[of "snd (insertActivitySegment st (mkSegment sid idle g e es))" "Suc n"]
      by (simp add: List.map_filter_simps groupSegment_def insertActivitySegment_def Let_def)
  qed
qed

lemma flushedSegments_eq:
  assumes "ing_activeSessionId ing = Some sid" "sid \<noteq> []" "buffer ing \<noteq> []"
  shows "flushedSegments idle ing st =
     renumber (length (activitySegments st))
       (List.map_filter (groupSegment sid idle) (groupByApp (buffer ing)))"
  using assms by (simp add: flushedSegments_def flushToSegments_def insertGroups_eq Let_def)

lemma flushedSegments_inactive:
  "\<not> truthyStr (ing_activeSessionId ing) \<or> buffer ing = [] \<Longrightarrow> flushedSegments idle ing st = []"
  by (auto simp add: flushedSegments_def flushToSegments_def)

lemma groupByApp_concat: "concat (map events (groupByApp evs)) = evs"
  by (simp add: groupByApp_def concat_groupLoop)

lemma groupByApp_nonempty: "g \<in> set (groupByApp evs) \<Longrightarrow> events g \<noteq> []"
  unfolding groupByApp_def by (rule nonempty_groupLoop[of None]) auto

lemma mkSegment_id: "(mkSegment sid idle g e es)\<lparr>seg_id := x\<rparr>\<lparr>seg_id := None\<rparr> = mkSegment sid idle g e es"
  by (simp add: mkSegment_def Let_def)

lemma renumber_groups:
  "\<forall>g\<in>set gs. events g \<noteq> [] \<Longrightarrow>
   list_all2 (\<lambda>seg g. \<exists>e es. events g = e # es \<and> seg\<lparr>seg_id := None\<rparr> = mkSegment sid idle g e es)
     (renumber k (List.map_filter (groupSegment sid idle) gs)) gs"
proof (induction gs arbitrary: k)
  case Nil
  show ?case by (simp add: List.map_filter_simps)
next
  case (Cons g gs)
  then obtain e es where E: "events g = e # es" by (cases "events g") auto
  show ?case using Cons.IH[of "Suc k"] Cons.prems E
    by (simp add: List.map_filter_simps groupSegment_def mkSegment_id)
qed

lemma renumber_times:
  "\<forall>g\<in>set gs. events g \<noteq> [] \<Longrightarrow>
   map (\<lambda>s. (startTime s, endTime s)) (renumber k (List.map_filter (groupSegment sid idle) gs))
     = map (\<lambda>g. (hd (map timestamp (events g)), last (map timestamp (events g)))) gs"
proof (induction gs arbitrary: k)
  case Nil
  show ?case by (simp add: List.map_filter_simps)
next
  case (Cons g gs)
  then obtain e es where E: "events g = e # es" by (cases "events g") auto
  show ?case using Cons.IH[of "Suc k"] Cons.prems E
    by (simp add: List.map_filter_simps groupSegment_def mkSegment_def Let_def last_map)
qed

text \<open>
  A buffer that holds events belongs to an active session: events are only pushed while a
  session is active, and starting or stopping a session leaves the buffer empty.
\<close>

lemma flush_buffer:
  "buffer (fst (flushToSegments idle s)) = (if truthyStr (ing_activeSessionId (fst s)) then [] else buffer (fst s))"
  by (cases s) (auto simp add: flushToSegments_def insertGroups_eq Let_def split: option.splits)

lemma flush_session:
  "ing_activeSessionId (fst (flushToSegments idle s)) = ing_activeSessionId (fst s)"
  by (cases s) (auto simp add: flushToSegments_def insertGroups_eq Let_def split: option.splits)

lemma buffered_implies_session:
  "reachable s \<Longrightarrow> buffer (fst s) \<noteq> [] \<Longrightarrow> truthyStr (ing_activeSessionId (fst s))"
proof (induction s rule: reachable.induct)
  case (initial st)
  then show ?case by simp
next
  case (started s sid)
  show ?case using started.prems by (simp add: startIngestion_def split: prod.splits)
next
  case (stopped s idle)
  have "buffer (fst (stopIngestion idle s)) = []"
  proof (cases "buffer (fst s) = []")
    case True
    then show ?thesis by (auto simp add: stopIngestion_def split: prod.splits)
  next
    case False
    then have "buffer (fst (flushToSegments idle s)) = []"
      using stopped.IH by (simp add: flush_buffer)
    then show ?thesis using False
      by (auto simp add: stopIngestion_def split: prod.splits)
  qed
  then show ?case using stopped.prems by simp
next
  case (ingested s nowSecs ch app cat body raw)
  show ?case using ingested.IH ingested.prems
    by (auto simp add: ingestEvent_def Let_def split: prod.splits option.splits if_splits)
next
  case (flushedOnce s idle)
  show ?case using flushedOnce.IH flushedOnce.prems
    by (simp add: flush_buffer flush_session split: if_splits)
qed

text \<open>
  Events are stamped with the clock when they are ingested: under a clock that does not go
  back, the timestamps of the buffer stay in non-decreasing order.
\<close>

lemma ingestEvent_sorted:
  assumes "sorted (map timestamp (buffer ing))" "\<forall>e\<in>set (buffer ing). timestamp e \<le> nowSecs"
  shows "sorted (map timestamp (buffer (fst (ingestEvent nowSecs ch app cat txt raw (ing, st)))))
       \<and> (\<forall>e\<in>set (buffer (fst (ingestEvent nowSecs ch app cat txt raw (ing, st)))). timestamp e \<le> nowSecs)"
  using assms by (auto simp add: ingestEvent_def Let_def sorted_append split: option.splits)

text \<open>
  C1. For a non-empty buffer (of the active session: by \<open>buffered_implies_session\<close> no
  reachable state holds events without one), \<open>flushToSegments\<close> stores one segment per
  group of \<open>groupByApp\<close>, in order, each built from the events of its group; no group is
  empty, and the event lists of the groups, concatenated in order, are the buffer: no
  event is lost, none is duplicated, and the order is kept within and across segments.
  The flush appends to the store and empties the buffer.
\<close>

theorem flushToSegments_partitions_buffer:
  assumes "ing_activeSessionId ing = Some sid" "sid \<noteq> []" "buffer ing \<noteq> []"
  shows "concat (map events (groupByApp (buffer ing))) = buffer ing
       \<and> list_all2 (\<lambda>seg g. \<exists>e es. events g = e # es \<and> seg\<lparr>seg_id := None\<rparr> = mkSegment sid idle g e es)
            (flushedSegments idle ing st) (groupByApp (buffer ing))
       \<and> activitySegments (snd (flushToSegments idle (ing, st))) = activitySegments st @ flushedSegments idle ing st
       \<and> buffer (fst (flushToSegments idle (ing, st))) = []"
proof -
  have 1: "concat (map events (groupByApp (buffer ing))) = buffer ing" by (rule groupByApp_concat)
  have 2: "list_all2 (\<lambda>seg g. \<exists>e es. events g = e # es \<and> seg\<lparr>seg_id := None\<rparr> = mkSegment sid idle g e es)
            (flushedSegments idle ing st) (groupByApp (buffer ing))"
    unfolding flushedSegments_eq[OF assms] by (rule renumber_groups) (simp add: groupByApp_nonempty)
  have 3: "activitySegments (snd (flushToSegments idle (ing, st))) = activitySegments st @ flushedSegments idle ing st"
    using assms by (simp add: flushedSegments_def flushToSegments_def insertGroups_eq Let_def)
  have 4: "buffer (fst (flushToSegments idle (ing, st))) = []"
    using assms by (simp add: flushToSegments_def insertGroups_eq Let_def)
  show ?thesis using 1 2 3 4 by blast
qed

theorem flushToSegments_partitions_buffer_witness:
  "ing_activeSessionId exIngestor = Some exSid \<and> exSid \<noteq> [] \<and> buffer exIngestor \<noteq> []
     \<and> concat (map events (groupByApp (buffer exIngestor))) = buffer exIngestor
     \<and> list_all2 (\<lambda>seg g. \<exists>e es. events g = e # es \<and> seg\<lparr>seg_id := None\<rparr> = mkSegment exSid True g e es)
            (flushedSegments True exIngestor emptyStore) (groupByApp (buffer exIngestor))
     \<and> activitySegments (snd (flushToSegments True (exIngestor, emptyStore)))
          = activitySegments emptyStore @ flushedSegments True exIngestor emptyStore
     \<and> buffer (fst (flushToSegments True (exIngestor, emptyStore))) = []
     \<and> map (\<lambda>g. length (events g)) (groupByApp (buffer exIngestor)) = [2, 1]"
proof -
  have h1: "ing_activeSessionId exIngestor = Some exSid" by (simp add: exIngestor_def)
  have h2: "exSid \<noteq> []" by (simp add: exSid_def asc_def)
  have h3: "buffer exIngestor \<noteq> []" by (simp add: exIngestor_def exBuffer_def)
  have h4: "map (\<lambda>g. length (events g)) (groupByApp (buffer exIngestor)) = [2, 1]"
    by (simp add: exIngestor_def exBuffer_def groupByApp_def newGroup_def hasAppInfo_def
          exScene_def exTranscript_def asc_def)
  show ?thesis using flushToSegments_partitions_buffer[OF h1 h2 h3, of True emptyStore] h1 h2 h3 h4 by blast
qed



text \<open>
  C7. When the buffered events carry non-decreasing timestamps, every segment a flush
  produces ends no earlier than it starts, and the segments of the flush are in time
  order without overlap: each one ends no later than the next one starts.
\<close>

theorem flushToSegments_time_ordered:
  assumes "sorted (map timestamp (buffer ing))"
  shows "(\<forall>seg\<in>set (flushedSegments idle ing st). startTime seg \<le> endTime seg)
       \<and> sorted_wrt (\<lambda>a b. endTime a \<le> startTime b) (flushedSegments idle ing st)"
proof (cases "\<not> truthyStr (ing_activeSessionId ing) \<or> buffer ing = []")
  case True
  then show ?thesis by (simp add: flushedSegments_inactive)
next
  case False
  then obtain sid where A: "ing_activeSessionId ing = Some sid" "sid \<noteq> []" "buffer ing \<noteq> []"
    by (cases "ing_activeSessionId ing") auto
  let ?gs = "groupByApp (buffer ing)"
  let ?tss = "map (\<lambda>g. map timestamp (events g)) ?gs"
  have NE: "\<forall>g\<in>set ?gs. events g \<noteq> []" by (simp add: groupByApp_nonempty)
  have T: "map (\<lambda>s. (startTime s, endTime s)) (flushedSegments idle ing st)
            = map (\<lambda>ts. (hd ts, last ts)) ?tss"
    unfolding flushedSegments_eq[OF A] renumber_times[OF NE] by (simp add: comp_def)
  have "concat ?tss = map timestamp (concat (map events ?gs))" by (simp add: map_concat comp_def)
  then have S: "sorted (concat ?tss)" using assms by (simp add: groupByApp_concat)
  have NE': "\<forall>ts\<in>set ?tss. ts \<noteq> []" using NE by auto
  have R: "sorted_wrt (\<lambda>a b. last a \<le> hd b) ?tss" by (rule sorted_runs[OF S NE'])
  have "\<forall>ts\<in>set ?tss. sorted ts"
    using S sorted_concat_parts by blast
  then have H: "\<forall>ts\<in>set ?tss. hd ts \<le> last ts" using NE' sorted_hd_last by blast
  have P1: "\<forall>p\<in>set (map (\<lambda>ts. (hd ts, last ts)) ?tss). fst p \<le> snd p" using H by auto
  have P2: "sorted_wrt (\<lambda>p q. snd p \<le> fst q) (map (\<lambda>ts. (hd ts, last ts)) ?tss)"
    using R by (simp add: sorted_wrt_map)
  have Q1: "\<forall>seg\<in>set (flushedSegments idle ing st). startTime seg \<le> endTime seg"
  proof
    fix seg assume "seg \<in> set (flushedSegments idle ing st)"
    then have "(startTime seg, endTime seg) \<in> set (map (\<lambda>s. (startTime s, endTime s)) (flushedSegments idle ing st))"
      by auto
    then show "startTime seg \<le> endTime seg" unfolding T using P1 by auto
  qed
  have "sorted_wrt (\<lambda>p q. snd p \<le> fst q) (map (\<lambda>s. (startTime s, endTime s)) (flushedSegments idle ing st))"
    unfolding T by (rule P2)
  then have Q2: "sorted_wrt (\<lambda>a b. endTime a \<le> startTime b) (flushedSegments idle ing st)"
    by (simp add: sorted_wrt_map)
  show ?thesis using Q1 Q2 by blast
qed

theorem flushToSegments_time_ordered_witness:
  "sorted (map timestamp (buffer exIngestor))
   \<and> list_all (\<lambda>seg. startTime seg \<le> endTime seg) (flushedSegments True exIngestor emptyStore)
   \<and> sorted_wrt (\<lambda>a b. endTime a \<le> startTime b) (flushedSegments True exIngestor emptyStore)"
proof -
  have h: "sorted (map timestamp (buffer exIngestor))"
    by (simp add: exIngestor_def exBuffer_def exScene_def exTranscript_def)
  show ?thesis using flushToSegments_time_ordered[OF h, of True emptyStore] h by (simp add: list_all_iff)
qed

section \<open>The classifier: project inference\<close>

inductive_cases accepts_CapE: "accepts (Cap a) w"


















































section \<open>The summarizer\<close>

lemma micro_noop:
  assumes "\<And>sid. activeSessionId s = Some sid \<Longrightarrow> getUnprocessedSegmentsForMicro (db s) sid (lastMicroTime s) = []"
  shows "generateMicroSummary e now s = (None, s)"
  using assms by (simp add: generateMicroSummary_def split: option.splits)

lemma daily_noop:
  assumes "getSessionSummaries (db s) date = []" "getMicroSummaries (db s) dayStart (dayStart + 86400) = []"
  shows "generateDailySummary e agg dayStart date s = (None, s)"
  using assms by (simp add: generateDailySummary_def)

text \<open>
  C6. With empty input the summarizer makes no call of the completion API:
  \<open>generateMicroSummary\<close> with no eligible segment (no segment of the active session with
  \<open>startTime > lastMicroTime\<close>) returns none, and \<open>generateDailySummary\<close> for a date with no
  session summary and no micro-summary returns none; both leave the whole state, and so
  the count of calls, as it was.
\<close>

theorem empty_input_makes_no_call:
  "((\<forall>sid. activeSessionId s = Some sid \<longrightarrow>
        getUnprocessedSegmentsForMicro (db s) sid (lastMicroTime s) = [])
      \<longrightarrow> generateMicroSummary e now s = (None, s)
          \<and> apiCalls (snd (generateMicroSummary e now s)) = apiCalls s)
   \<and> (getSessionSummaries (db s) date = []
        \<and> getMicroSummaries (db s) dayStart (dayStart + 86400) = []
      \<longrightarrow> generateDailySummary e agg dayStart date s = (None, s)
          \<and> apiCalls (snd (generateDailySummary e agg dayStart date s)) = apiCalls s)"
  using micro_noop[of s e now] daily_noop[of s date dayStart e agg] by simp

lemma micro_failure:
  assumes "requestJson e s = Inl err"
  shows "fst (generateMicroSummary e now s) = None
       \<and> samePersistentState s (snd (generateMicroSummary e now s))"
  using assms
  by (simp add: generateMicroSummary_def samePersistentState_def Let_def split: option.splits list.splits)

lemma session_failure:
  assumes "requestJson e s = Inl err"
  shows "fst (generateSessionSummary e nowQuery now today s) = None
       \<and> samePersistentState s (snd (generateSessionSummary e nowQuery now today s))"
  using assms
  by (simp add: generateSessionSummary_def samePersistentState_def Let_def split: option.splits list.splits)

lemma daily_failure:
  assumes "requestJson e s = Inl err"
  shows "fst (generateDailySummary e agg dayStart date s) = None
       \<and> samePersistentState s (snd (generateDailySummary e agg dayStart date s))"
  using assms
  by (simp add: generateDailySummary_def samePersistentState_def Let_def split: option.splits list.splits)

lemma deepDive_failure:
  assumes "reply e (apiCalls s) = Throws msg"
  shows "samePersistentState s (snd (generateDeepDive e start endT s))"
  using assms
  by (simp add: generateDeepDive_def samePersistentState_def Let_def split: option.splits list.splits)

text \<open>
  C10. When the completion call or the decoding of its output throws inside
  \<open>generateMicroSummary\<close>, \<open>generateSessionSummary\<close> or \<open>generateDailySummary\<close>, and when the
  completion call throws inside \<open>generateDeepDive\<close> (which decodes nothing), the persistent
  state is unchanged: the store (no row inserted or upserted, no cache entry, no project
  written on a segment) and both watermarks; the three generators return none.
\<close>

theorem failed_completion_changes_nothing:
  "(requestJson e s = Inl err \<longrightarrow>
      fst (generateMicroSummary e now s) = None
      \<and> samePersistentState s (snd (generateMicroSummary e now s))
      \<and> fst (generateSessionSummary e nowQuery now today s) = None
      \<and> samePersistentState s (snd (generateSessionSummary e nowQuery now today s))
      \<and> fst (generateDailySummary e agg dayStart date s) = None
      \<and> samePersistentState s (snd (generateDailySummary e agg dayStart date s)))
   \<and> (reply e (apiCalls s) = Throws msg \<longrightarrow>
      samePersistentState s (snd (generateDeepDive e start endT s)))"
  using micro_failure[of e s err now] session_failure[of e s err nowQuery now today]
        daily_failure[of e s err agg dayStart date] deepDive_failure[of e s msg start endT]
  by blast

lemma micro_keeps_sessions:
  "sessionSummaries (db (snd (generateMicroSummary e now s))) = sessionSummaries (db s)"
  by (simp add: generateMicroSummary_def Let_def insertMicroSummary_def updateSegmentProjects_def
        split: option.splits list.splits sum.splits)

lemma micro_keeps_llm: "llm (snd (generateMicroSummary e now s)) = llm s"
  by (simp add: generateMicroSummary_def Let_def split: option.splits list.splits sum.splits)

lemma micro_no_llm: "\<not> llm s \<Longrightarrow> generateMicroSummary e now s = (None, s)"
  by (simp add: generateMicroSummary_def)

text \<open>
  C9. \<open>generateOnDemandSummary\<close> first runs \<open>generateMicroSummary\<close>. With no micro-summary
  today it returns the fixed message; with exactly one it returns the summary of that one
  and the state is the state after the forced flush (no further call of the completion
  API); with more than one, when the client is missing or the overview call or its
  decoding fails, it returns the summary of the last micro-summary the store gives. It
  never adds a session summary.
\<close>

theorem onDemandSummary_cases:
  "(todaysMicros e nowFlush dayStart now s = [] \<longrightarrow>
       generateOnDemandSummary e nowFlush dayStart now s
         = (JStr (asc ''No activity recorded yet.''), snd (generateMicroSummary e nowFlush s)))
   \<and> (todaysMicros e nowFlush dayStart now s = [m] \<longrightarrow>
       generateOnDemandSummary e nowFlush dayStart now s
         = (m_summary m, snd (generateMicroSummary e nowFlush s)))
   \<and> (length (todaysMicros e nowFlush dayStart now s) > 1
        \<and> (\<not> llm s \<or> requestJson e (snd (generateMicroSummary e nowFlush s)) = Inl err) \<longrightarrow>
       fst (generateOnDemandSummary e nowFlush dayStart now s)
         = m_summary (last (todaysMicros e nowFlush dayStart now s)))
   \<and> sessionSummaries (db (snd (generateOnDemandSummary e nowFlush dayStart now s)))
       = sessionSummaries (db s)"
proof -
  let ?s1 = "snd (generateMicroSummary e nowFlush s)"
  let ?ms = "todaysMicros e nowFlush dayStart now s"
  have A: "?ms = [] \<longrightarrow> generateOnDemandSummary e nowFlush dayStart now s
         = (JStr (asc ''No activity recorded yet.''), ?s1)"
    by (simp add: generateOnDemandSummary_def todaysMicros_def Let_def)
  have B: "?ms = [m] \<longrightarrow> generateOnDemandSummary e nowFlush dayStart now s = (m_summary m, ?s1)"
    by (simp add: generateOnDemandSummary_def todaysMicros_def Let_def)
  have C: "length ?ms > 1 \<and> (\<not> llm s \<or> requestJson e ?s1 = Inl err) \<longrightarrow>
       fst (generateOnDemandSummary e nowFlush dayStart now s) = m_summary (last ?ms)"
    by (auto simp add: generateOnDemandSummary_def todaysMicros_def Let_def micro_keeps_llm
          split: list.splits)
  have D: "sessionSummaries (db (snd (generateOnDemandSummary e nowFlush dayStart now s)))
       = sessionSummaries (db s)"
    using micro_keeps_sessions[of e nowFlush s]
    by (simp add: generateOnDemandSummary_def Let_def split: list.splits sum.splits)
  show ?thesis using A B C D by blast
qed










lemma micro_row:
  "microSummaries (db (snd (generateMicroSummary e now s))) = microSummaries (db s)
   \<or> (\<exists>sid seg0 others parsed.
        activeSessionId s = Some sid
        \<and> getUnprocessedSegmentsForMicro (db s) sid (lastMicroTime s) = seg0 # others
        \<and> requestJson e s = Inr parsed
        \<and> microSummaries (db (snd (generateMicroSummary e now s)))
            = microSummaries (db s) @ [mkMicro sid seg0 others parsed])"
  by (auto simp add: generateMicroSummary_def Let_def insertMicroSummary_def updateSegmentProjects_def
        split: option.splits list.splits sum.splits)

lemma session_row:
  "sessionSummaries (db (snd (generateSessionSummary e nowQuery now today s))) = sessionSummaries (db s)
   \<or> (\<exists>sid m0 others parsed.
        activeSessionId s = Some sid
        \<and> getMicroSummaries (db s) (lastSessionSummaryTime s) nowQuery = m0 # others
        \<and> requestJson e s = Inr parsed
        \<and> sessionSummaries (db (snd (generateSessionSummary e nowQuery now today s)))
            = sessionSummaries (db s) @ [mkSession e (db s) sid today m0 others parsed])"
  by (auto simp add: generateSessionSummary_def Let_def insertSessionSummary_def
        split: option.splits list.splits sum.splits)


text \<open>
  C5, as amended. The label of every micro-summary and session summary that is stored is
  the \<open>productivity_label\<close> of the decoded answer when that value is truthy, and
  \<open>neutral\<close> when it is absent or falsy; it is in the closed set whenever the model gave
  one of the three labels. A truthy value outside the set is not checked.
\<close>

theorem productivityLabel_is_model_value_or_neutral:
  "(microSummaries (db (snd (generateMicroSummary e now s))) = microSummaries (db s)
      \<or> (\<exists>parsed m. requestJson e s = Inr parsed
            \<and> microSummaries (db (snd (generateMicroSummary e now s))) = microSummaries (db s) @ [m]
            \<and> m_productivityLabel m = labelOf parsed))
   \<and> (sessionSummaries (db (snd (generateSessionSummary e nowQuery now today s))) = sessionSummaries (db s)
      \<or> (\<exists>parsed x. requestJson e s = Inr parsed
            \<and> sessionSummaries (db (snd (generateSessionSummary e nowQuery now today s)))
                = sessionSummaries (db s) @ [x]
            \<and> ss_productivityLabel x = labelOf parsed))
   \<and> (getProp p ''productivity_label'' = None \<longrightarrow> labelOf p = JStr (asc ''neutral''))
   \<and> (getProp p ''productivity_label'' = Some v \<and> \<not> truthy v \<longrightarrow> labelOf p = JStr (asc ''neutral''))
   \<and> (getProp p ''productivity_label'' = Some v \<and> truthy v \<longrightarrow> labelOf p = v)
   \<and> (getProp p ''productivity_label'' = Some v \<and> v \<in> set LABELS \<longrightarrow> labelOf p \<in> set LABELS)"
proof -
  have A: "microSummaries (db (snd (generateMicroSummary e now s))) = microSummaries (db s)
      \<or> (\<exists>parsed m. requestJson e s = Inr parsed
            \<and> microSummaries (db (snd (generateMicroSummary e now s))) = microSummaries (db s) @ [m]
            \<and> m_productivityLabel m = labelOf parsed)"
    using micro_row[of e now s] by (auto simp add: mkMicro_def labelOf_def)
  have B: "sessionSummaries (db (snd (generateSessionSummary e nowQuery now today s))) = sessionSummaries (db s)
      \<or> (\<exists>parsed x. requestJson e s = Inr parsed
            \<and> sessionSummaries (db (snd (generateSessionSummary e nowQuery now today s)))
                = sessionSummaries (db s) @ [x]
            \<and> ss_productivityLabel x = labelOf parsed)"
    using session_row[of e nowQuery now today s] by (auto simp add: mkSession_def labelOf_def)
  have C: "getProp p ''productivity_label'' = Some v \<and> v \<in> set LABELS \<longrightarrow> labelOf p \<in> set LABELS"
    by (auto simp add: labelOf_def LABELS_def)
  show ?thesis using A B C by (simp add: labelOf_def)
qed

lemma deepDive_cached:
  "getCachedDeepDive (db s) (cacheKeyOf (activeSessionId s) start endT) = Some r
   \<Longrightarrow> generateDeepDive e start endT s = (r, s)"
  by (simp add: generateDeepDive_def Let_def)

lemma deepDive_fresh:
  assumes "getCachedDeepDive (db s) (cacheKeyOf (activeSessionId s) start endT) = None"
    "llm s" "getRawEvents (db s) start endT \<noteq> []" "reply e (apiCalls s) = Content c"
  shows "generateDeepDive e start endT s =
           (\<lparr>analysis = contentOr c ''Analysis unavailable.''\<rparr>,
            s\<lparr>apiCalls := Suc (apiCalls s),
              db := cacheDeepDive (db s) (cacheKeyOf (activeSessionId s) start endT)
                      \<lparr>analysis = contentOr c ''Analysis unavailable.''\<rparr>\<rparr>)"
  using assms by (simp add: generateDeepDive_def Let_def)

lemma micro_keeps_cache:
  "deepDives (db (snd (generateMicroSummary e now s))) = deepDives (db s)"
  by (simp add: generateMicroSummary_def Let_def insertMicroSummary_def updateSegmentProjects_def
        split: option.splits list.splits sum.splits)

lemma session_keeps_cache:
  "deepDives (db (snd (generateSessionSummary e nowQuery now today s))) = deepDives (db s)"
  by (simp add: generateSessionSummary_def Let_def insertSessionSummary_def
        split: option.splits list.splits sum.splits)

lemma daily_keeps_cache:
  "deepDives (db (snd (generateDailySummary e agg dayStart date s))) = deepDives (db s)"
  by (simp add: generateDailySummary_def Let_def upsertDailySummary_def
        split: option.splits list.splits sum.splits)

lemma onDemand_keeps_cache:
  "deepDives (db (snd (generateOnDemandSummary e nowFlush dayStart now s))) = deepDives (db s)"
  using micro_keeps_cache[of e nowFlush s]
  by (simp add: generateOnDemandSummary_def Let_def split: list.splits sum.splits)

lemma deepDive_keeps_entries:
  assumes "getCachedDeepDive (db s) k = Some r"
  shows "getCachedDeepDive (db (snd (generateDeepDive e start endT s))) k = Some r"
proof (cases "getCachedDeepDive (db s) (cacheKeyOf (activeSessionId s) start endT)")
  case None
  then have "k \<noteq> cacheKeyOf (activeSessionId s) start endT" using assms by auto
  then show ?thesis using assms None
    by (simp add: generateDeepDive_def Let_def getCachedDeepDive_def cacheDeepDive_def
          split: llm_reply.splits)
next
  case (Some c)
  then show ?thesis using assms by (simp add: generateDeepDive_def Let_def)
qed

text \<open>
  C4, as amended. When the first call finds no cache entry, the client is configured, the
  range has events and the completion call returns, that call makes exactly one call of
  the completion API and caches its result, and a second call with the same key, whatever
  the model would answer, returns the same result and state. When the key is cached, the
  call returns the cached result and leaves the state as it was. No operation of the
  summarizer removes or replaces a cache entry. Nothing else is cached: without a cache
  entry, a call with no client or no event in the range leaves the state as it was, and a
  call whose completion throws only counts one more call of the completion API.
\<close>

theorem deepDive_cached_after_success:
  "(getCachedDeepDive (db s) (cacheKeyOf (activeSessionId s) start endT) = None
      \<and> llm s \<and> getRawEvents (db s) start endT \<noteq> [] \<and> reply e (apiCalls s) = Content c
    \<longrightarrow> generateDeepDive e' start endT (snd (generateDeepDive e start endT s))
          = generateDeepDive e start endT s
        \<and> apiCalls (snd (generateDeepDive e start endT s)) = Suc (apiCalls s)
        \<and> getCachedDeepDive (db (snd (generateDeepDive e start endT s)))
             (cacheKeyOf (activeSessionId s) start endT)
           = Some (fst (generateDeepDive e start endT s)))
   \<and> (getCachedDeepDive (db s) (cacheKeyOf (activeSessionId s) start endT) = Some r
    \<longrightarrow> generateDeepDive e start endT s = (r, s))
   \<and> (getCachedDeepDive (db s) k = Some r'
    \<longrightarrow> getCachedDeepDive (db (snd (generateDeepDive e start endT s))) k = Some r'
        \<and> getCachedDeepDive (db (snd (generateMicroSummary e now s))) k = Some r'
        \<and> getCachedDeepDive (db (snd (generateSessionSummary e nowQuery now today s))) k = Some r'
        \<and> getCachedDeepDive (db (snd (generateDailySummary e agg dayStart date s))) k = Some r'
        \<and> getCachedDeepDive (db (snd (generateOnDemandSummary e nowFlush dayStart now s))) k = Some r')
   \<and> (getCachedDeepDive (db s) (cacheKeyOf (activeSessionId s) start endT) = None
        \<and> (\<not> llm s \<or> getRawEvents (db s) start endT = [])
    \<longrightarrow> snd (generateDeepDive e start endT s) = s)
   \<and> (getCachedDeepDive (db s) (cacheKeyOf (activeSessionId s) start endT) = None
        \<and> llm s \<and> getRawEvents (db s) start endT \<noteq> [] \<and> reply e (apiCalls s) = Throws msg
    \<longrightarrow> snd (generateDeepDive e start endT s) = s\<lparr>apiCalls := Suc (apiCalls s)\<rparr>)"
proof -
  have N: "getCachedDeepDive (db s) (cacheKeyOf (activeSessionId s) start endT) = None
        \<and> (\<not> llm s \<or> getRawEvents (db s) start endT = [])
    \<longrightarrow> snd (generateDeepDive e start endT s) = s"
    by (auto simp add: generateDeepDive_def Let_def)
  have T: "getCachedDeepDive (db s) (cacheKeyOf (activeSessionId s) start endT) = None
        \<and> llm s \<and> getRawEvents (db s) start endT \<noteq> [] \<and> reply e (apiCalls s) = Throws msg
    \<longrightarrow> snd (generateDeepDive e start endT s) = s\<lparr>apiCalls := Suc (apiCalls s)\<rparr>"
    by (simp add: generateDeepDive_def Let_def)
  have K: "getCachedDeepDive (db s) k = Some r'
    \<longrightarrow> getCachedDeepDive (db (snd (generateDeepDive e start endT s))) k = Some r'
        \<and> getCachedDeepDive (db (snd (generateMicroSummary e now s))) k = Some r'
        \<and> getCachedDeepDive (db (snd (generateSessionSummary e nowQuery now today s))) k = Some r'
        \<and> getCachedDeepDive (db (snd (generateDailySummary e agg dayStart date s))) k = Some r'
        \<and> getCachedDeepDive (db (snd (generateOnDemandSummary e nowFlush dayStart now s))) k = Some r'"
    using deepDive_keeps_entries[of s k r' e start endT]
    by (simp add: getCachedDeepDive_def micro_keeps_cache session_keeps_cache daily_keeps_cache
          onDemand_keeps_cache)
  have A: "getCachedDeepDive (db s) (cacheKeyOf (activeSessionId s) start endT) = Some r
    \<longrightarrow> generateDeepDive e start endT s = (r, s)"
    by (simp add: deepDive_cached)
  have B: "getCachedDeepDive (db s) (cacheKeyOf (activeSessionId s) start endT) = None
      \<and> llm s \<and> getRawEvents (db s) start endT \<noteq> [] \<and> reply e (apiCalls s) = Content c
    \<longrightarrow> generateDeepDive e' start endT (snd (generateDeepDive e start endT s))
          = generateDeepDive e start endT s
        \<and> apiCalls (snd (generateDeepDive e start endT s)) = Suc (apiCalls s)
        \<and> getCachedDeepDive (db (snd (generateDeepDive e start endT s)))
             (cacheKeyOf (activeSessionId s) start endT)
           = Some (fst (generateDeepDive e start endT s))"
  proof
    assume H: "getCachedDeepDive (db s) (cacheKeyOf (activeSessionId s) start endT) = None
      \<and> llm s \<and> getRawEvents (db s) start endT \<noteq> [] \<and> reply e (apiCalls s) = Content c"
    let ?r = "\<lparr>analysis = contentOr c ''Analysis unavailable.''\<rparr>"
    let ?s1 = "s\<lparr>apiCalls := Suc (apiCalls s),
              db := cacheDeepDive (db s) (cacheKeyOf (activeSessionId s) start endT) ?r\<rparr>"
    have F: "generateDeepDive e start endT s = (?r, ?s1)"
      using H deepDive_fresh[of s start endT e c] by simp
    have G: "getCachedDeepDive (db ?s1) (cacheKeyOf (activeSessionId ?s1) start endT) = Some ?r"
      by (simp add: getCachedDeepDive_def cacheDeepDive_def)
    have "generateDeepDive e' start endT ?s1 = (?r, ?s1)" by (rule deepDive_cached[OF G])
    then show "generateDeepDive e' start endT (snd (generateDeepDive e start endT s))
          = generateDeepDive e start endT s
        \<and> apiCalls (snd (generateDeepDive e start endT s)) = Suc (apiCalls s)
        \<and> getCachedDeepDive (db (snd (generateDeepDive e start endT s)))
             (cacheKeyOf (activeSessionId s) start endT)
           = Some (fst (generateDeepDive e start endT s))"
      using F G by simp
  qed
  show ?thesis using A B K N T by blast
qed

subsection \<open>Instances\<close>

lemmas exdefs = exSummarizer_def emptyStore_def exEnv_def exSegments_def exSegment_def exMicros_def
  exMicro_def exSid_def exAggregates_def

theorem empty_input_makes_no_call_witness:
  "getUnprocessedSegmentsForMicro (db (exSummarizer emptyStore)) exSid (lastMicroTime (exSummarizer emptyStore)) = []
   \<and> generateMicroSummary (exEnv (\<lambda>n. Content None) None) 500 (exSummarizer emptyStore)
       = (None, exSummarizer emptyStore)
   \<and> getSessionSummaries (db (exSummarizer emptyStore)) (asc ''2026-01-01'') = []
   \<and> getMicroSummaries (db (exSummarizer emptyStore)) 0 (0 + 86400) = []
   \<and> generateDailySummary (exEnv (\<lambda>n. Content None) None) exAggregates 0 (asc ''2026-01-01'')
        (exSummarizer emptyStore) = (None, exSummarizer emptyStore)"
proof -
  have h1: "\<forall>sid. activeSessionId (exSummarizer emptyStore) = Some sid \<longrightarrow>
     getUnprocessedSegmentsForMicro (db (exSummarizer emptyStore)) sid (lastMicroTime (exSummarizer emptyStore)) = []"
    by (simp add: exdefs getUnprocessedSegmentsForMicro_def)
  have h2: "getSessionSummaries (db (exSummarizer emptyStore)) (asc ''2026-01-01'') = []"
    by (simp add: exdefs getSessionSummaries_def)
  have h3: "getMicroSummaries (db (exSummarizer emptyStore)) 0 (0 + 86400) = []"
    by (simp add: exdefs getMicroSummaries_def)
  have h4: "getUnprocessedSegmentsForMicro (db (exSummarizer emptyStore)) exSid (lastMicroTime (exSummarizer emptyStore)) = []"
    by (simp add: exdefs getUnprocessedSegmentsForMicro_def)
  show ?thesis
    using empty_input_makes_no_call[of "exSummarizer emptyStore" "exEnv (\<lambda>n. Content None) None" 500 "asc ''2026-01-01''" 0 exAggregates]
          h1 h2 h3 h4 by simp
qed

theorem failed_completion_changes_nothing_witness:
  "requestJson (exEnv (\<lambda>n. Throws (asc ''timeout'')) None) (exSummarizer (emptyStore\<lparr>activitySegments := exSegments\<rparr>))
      = Inl (CompletionFailed (asc ''timeout''))
   \<and> fst (generateMicroSummary (exEnv (\<lambda>n. Throws (asc ''timeout'')) None) 500
            (exSummarizer (emptyStore\<lparr>activitySegments := exSegments\<rparr>))) = None
   \<and> samePersistentState (exSummarizer (emptyStore\<lparr>activitySegments := exSegments\<rparr>))
        (snd (generateMicroSummary (exEnv (\<lambda>n. Throws (asc ''timeout'')) None) 500
            (exSummarizer (emptyStore\<lparr>activitySegments := exSegments\<rparr>))))
   \<and> apiCalls (snd (generateMicroSummary (exEnv (\<lambda>n. Throws (asc ''timeout'')) None) 500
            (exSummarizer (emptyStore\<lparr>activitySegments := exSegments\<rparr>)))) = 1
   \<and> reply (exEnv (\<lambda>n. Throws (asc ''timeout'')) None)
        (apiCalls (exSummarizer (emptyStore\<lparr>rawEvents := exBuffer\<rparr>))) = Throws (asc ''timeout'')
   \<and> samePersistentState (exSummarizer (emptyStore\<lparr>rawEvents := exBuffer\<rparr>))
        (snd (generateDeepDive (exEnv (\<lambda>n. Throws (asc ''timeout'')) None) 0 200
            (exSummarizer (emptyStore\<lparr>rawEvents := exBuffer\<rparr>))))"
proof -
  let ?e = "exEnv (\<lambda>n. Throws (asc ''timeout'')) None"
  let ?s = "exSummarizer (emptyStore\<lparr>activitySegments := exSegments\<rparr>)"
  let ?s' = "exSummarizer (emptyStore\<lparr>rawEvents := exBuffer\<rparr>)"
  have h1: "requestJson ?e ?s = Inl (CompletionFailed (asc ''timeout''))"
    by (simp add: requestJson_def exEnv_def)
  have h2: "reply ?e (apiCalls ?s') = Throws (asc ''timeout'')"
    by (simp add: exEnv_def)
  have h3: "apiCalls (snd (generateMicroSummary ?e 500 ?s)) = 1"
    by (simp add: generateMicroSummary_def requestJson_def exEnv_def exSummarizer_def emptyStore_def
          exSegments_def exSegment_def getUnprocessedSegmentsForMicro_def exSid_def asc_def)
  show ?thesis
    using failed_completion_changes_nothing[where e = ?e and s = ?s and err = "CompletionFailed (asc ''timeout'')" and now = 500
                and msg = "asc ''timeout''"]
          failed_completion_changes_nothing[where e = ?e and s = ?s' and msg = "asc ''timeout''" and start = 0 and endT = 200]
          h1 h2 h3 by simp
qed


lemma exOdd_run:
  "map m_productivityLabel
     (microSummaries (db (snd (generateMicroSummary (exEnv (\<lambda>n. Content (Some (asc ''{...}''))) (Some exOddLabel))
        500 (exSummarizer (emptyStore\<lparr>activitySegments := exSegments\<rparr>))))))
   = [JStr (asc ''very productive'')]"
  by (simp add: generateMicroSummary_def requestJson_def exEnv_def exSummarizer_def emptyStore_def
        exSegments_def exSegment_def getUnprocessedSegmentsForMicro_def exSid_def asc_def
        exOddLabel_def mkMicro_def llmProjectOf_def insertMicroSummary_def Let_def)

theorem productivityLabel_outside_closed_set:
  "map m_productivityLabel
     (microSummaries (db (snd (generateMicroSummary (exEnv (\<lambda>n. Content (Some (asc ''{...}''))) (Some exOddLabel))
        500 (exSummarizer (emptyStore\<lparr>activitySegments := exSegments\<rparr>))))))
   = [JStr (asc ''very productive'')]
   \<and> JStr (asc ''very productive'') \<notin> set LABELS
   \<and> getProp exOddLabel ''productivity_label'' = Some (JStr (asc ''very productive''))"
  using exOdd_run by (simp add: LABELS_def asc_def exOddLabel_def)

theorem productivityLabel_is_model_value_or_neutral_witness:
  "getProp (JObj [(asc ''productivity_label'', JStr (asc ''distracted''))]) ''productivity_label''
      = Some (JStr (asc ''distracted''))
   \<and> JStr (asc ''distracted'') \<in> set LABELS
   \<and> labelOf (JObj [(asc ''productivity_label'', JStr (asc ''distracted''))]) \<in> set LABELS
   \<and> getProp (JObj []) ''productivity_label'' = None
   \<and> labelOf (JObj []) = JStr (asc ''neutral'')"
proof -
  have h1: "getProp (JObj [(asc ''productivity_label'', JStr (asc ''distracted''))]) ''productivity_label''
      = Some (JStr (asc ''distracted''))" by simp
  have h2: "JStr (asc ''distracted'') \<in> set LABELS" by (simp add: LABELS_def)
  have h3: "getProp (JObj []) ''productivity_label'' = None" by simp
  show ?thesis
    using productivityLabel_is_model_value_or_neutral[where p = "JObj [(asc ''productivity_label'', JStr (asc ''distracted''))]"
               and v = "JStr (asc ''distracted'')"]
          productivityLabel_is_model_value_or_neutral[where p = "JObj []"] h1 h2 h3 by simp
qed

lemma exFlaky_first:
  "generateDeepDive (exEnv exFlaky None) 0 200 (exSummarizer (emptyStore\<lparr>rawEvents := exBuffer\<rparr>))
     = (\<lparr>analysis = asc ''Error generating analysis: '' @ asc ''timeout''\<rparr>,
        (exSummarizer (emptyStore\<lparr>rawEvents := exBuffer\<rparr>))\<lparr>apiCalls := 1\<rparr>)"
  by (simp add: generateDeepDive_def exEnv_def exFlaky_def exSummarizer_def emptyStore_def
        getCachedDeepDive_def getRawEvents_def exBuffer_def exScene_def exTranscript_def Let_def)

lemma exFlaky_second:
  "generateDeepDive (exEnv exFlaky None) 0 200
      ((exSummarizer (emptyStore\<lparr>rawEvents := exBuffer\<rparr>))\<lparr>apiCalls := 1\<rparr>)
     = (\<lparr>analysis = asc ''You were coding.''\<rparr>,
        (exSummarizer (emptyStore\<lparr>rawEvents := exBuffer\<rparr>))
          \<lparr>apiCalls := 2,
           db := cacheDeepDive (emptyStore\<lparr>rawEvents := exBuffer\<rparr>) (cacheKeyOf (Some exSid) 0 200)
                   \<lparr>analysis = asc ''You were coding.''\<rparr>\<rparr>)"
  by (simp add: generateDeepDive_def exEnv_def exFlaky_def exSummarizer_def emptyStore_def
        getCachedDeepDive_def getRawEvents_def exBuffer_def exScene_def exTranscript_def Let_def
        asc_def)

theorem deepDive_failure_is_recomputed:
  "fst (generateDeepDive (exEnv exFlaky None) 0 200 (exSummarizer (emptyStore\<lparr>rawEvents := exBuffer\<rparr>)))
     \<noteq> fst (generateDeepDive (exEnv exFlaky None) 0 200
            (snd (generateDeepDive (exEnv exFlaky None) 0 200
                    (exSummarizer (emptyStore\<lparr>rawEvents := exBuffer\<rparr>)))))
   \<and> apiCalls (snd (generateDeepDive (exEnv exFlaky None) 0 200
            (snd (generateDeepDive (exEnv exFlaky None) 0 200
                    (exSummarizer (emptyStore\<lparr>rawEvents := exBuffer\<rparr>)))))) = 2
   \<and> apiCalls (exSummarizer (emptyStore\<lparr>rawEvents := exBuffer\<rparr>)) = 0"
  unfolding exFlaky_first snd_conv fst_conv exFlaky_second
  by (simp add: asc_def exSummarizer_def)

theorem deepDive_cached_after_success_witness:
  "getCachedDeepDive (db (exSummarizer (emptyStore\<lparr>rawEvents := exBuffer\<rparr>)))
       (cacheKeyOf (activeSessionId (exSummarizer (emptyStore\<lparr>rawEvents := exBuffer\<rparr>))) 0 200) = None
   \<and> llm (exSummarizer (emptyStore\<lparr>rawEvents := exBuffer\<rparr>))
   \<and> getRawEvents (db (exSummarizer (emptyStore\<lparr>rawEvents := exBuffer\<rparr>))) 0 200 \<noteq> []
   \<and> reply (exEnv (\<lambda>n. Content (Some (asc ''You were coding.''))) None)
        (apiCalls (exSummarizer (emptyStore\<lparr>rawEvents := exBuffer\<rparr>))) = Content (Some (asc ''You were coding.''))
   \<and> generateDeepDive (exEnv exFlaky None) 0 200
        (snd (generateDeepDive (exEnv (\<lambda>n. Content (Some (asc ''You were coding.''))) None) 0 200
               (exSummarizer (emptyStore\<lparr>rawEvents := exBuffer\<rparr>))))
      = generateDeepDive (exEnv (\<lambda>n. Content (Some (asc ''You were coding.''))) None) 0 200
               (exSummarizer (emptyStore\<lparr>rawEvents := exBuffer\<rparr>))
   \<and> apiCalls (snd (generateDeepDive (exEnv (\<lambda>n. Content (Some (asc ''You were coding.''))) None) 0 200
               (exSummarizer (emptyStore\<lparr>rawEvents := exBuffer\<rparr>)))) = 1"
proof -
  let ?s = "exSummarizer (emptyStore\<lparr>rawEvents := exBuffer\<rparr>)"
  let ?e = "exEnv (\<lambda>n. Content (Some (asc ''You were coding.''))) None"
  have h1: "getCachedDeepDive (db ?s) (cacheKeyOf (activeSessionId ?s) 0 200) = None"
    by (simp add: getCachedDeepDive_def exSummarizer_def emptyStore_def)
  have h2: "llm ?s" by (simp add: exSummarizer_def)
  have h3: "getRawEvents (db ?s) 0 200 \<noteq> []"
    by (simp add: exSummarizer_def emptyStore_def getRawEvents_def exBuffer_def exScene_def exTranscript_def)
  have h4: "reply ?e (apiCalls ?s) = Content (Some (asc ''You were coding.''))"
    by (simp add: exEnv_def)
  have h5: "apiCalls ?s = 0" by (simp add: exSummarizer_def)
  show ?thesis
    using deepDive_cached_after_success[where s = ?s and e = ?e and e' = "exEnv exFlaky None" and start = 0 and endT = 200
               and c = "Some (asc ''You were coding.'')"] h1 h2 h3 h4 h5
    by simp
qed

theorem onDemandSummary_cases_witness:
  "todaysMicros (exEnv (\<lambda>n. Throws (asc ''timeout'')) None) 500 0 1000
      (exSummarizer (emptyStore\<lparr>microSummaries := [exMicro 100 200 ''Coding'' []]\<rparr>))
     = [exMicro 100 200 ''Coding'' []]
   \<and> fst (generateOnDemandSummary (exEnv (\<lambda>n. Throws (asc ''timeout'')) None) 500 0 1000
        (exSummarizer (emptyStore\<lparr>microSummaries := [exMicro 100 200 ''Coding'' []]\<rparr>)))
      = JStr (asc ''Coding'')
   \<and> apiCalls (snd (generateOnDemandSummary (exEnv (\<lambda>n. Throws (asc ''timeout'')) None) 500 0 1000
        (exSummarizer (emptyStore\<lparr>microSummaries := [exMicro 100 200 ''Coding'' []]\<rparr>)))) = 0
   \<and> 1 < length (todaysMicros (exEnv (\<lambda>n. Throws (asc ''timeout'')) None) 500 0 1000
        (exSummarizer (emptyStore\<lparr>microSummaries := exMicros\<rparr>)))
   \<and> requestJson (exEnv (\<lambda>n. Throws (asc ''timeout'')) None)
        (snd (generateMicroSummary (exEnv (\<lambda>n. Throws (asc ''timeout'')) None) 500
           (exSummarizer (emptyStore\<lparr>microSummaries := exMicros\<rparr>))))
      = Inl (CompletionFailed (asc ''timeout''))
   \<and> fst (generateOnDemandSummary (exEnv (\<lambda>n. Throws (asc ''timeout'')) None) 500 0 1000
        (exSummarizer (emptyStore\<lparr>microSummaries := exMicros\<rparr>)))
      = JStr (asc ''Browsing'')"
proof -
  let ?e = "exEnv (\<lambda>n. Throws (asc ''timeout'')) None"
  let ?s1 = "exSummarizer (emptyStore\<lparr>microSummaries := [exMicro 100 200 ''Coding'' []]\<rparr>)"
  let ?s2 = "exSummarizer (emptyStore\<lparr>microSummaries := exMicros\<rparr>)"
  have f1: "generateMicroSummary ?e 500 ?s1 = (None, ?s1)"
    by (rule micro_noop) (simp add: exSummarizer_def emptyStore_def getUnprocessedSegmentsForMicro_def)
  have f2: "generateMicroSummary ?e 500 ?s2 = (None, ?s2)"
    by (rule micro_noop) (simp add: exSummarizer_def emptyStore_def getUnprocessedSegmentsForMicro_def)
  have t1: "todaysMicros ?e 500 0 1000 ?s1 = [exMicro 100 200 ''Coding'' []]"
    by (simp add: todaysMicros_def f1) (simp add: exSummarizer_def emptyStore_def getMicroSummaries_def exMicro_def)
  have t2: "todaysMicros ?e 500 0 1000 ?s2 = exMicros"
    by (simp add: todaysMicros_def f2) (simp add: exSummarizer_def emptyStore_def getMicroSummaries_def exMicro_def exMicros_def)
  have r: "requestJson ?e (snd (generateMicroSummary ?e 500 ?s2)) = Inl (CompletionFailed (asc ''timeout''))"
    by (simp add: requestJson_def exEnv_def)
  have l: "1 < length (todaysMicros ?e 500 0 1000 ?s2)" unfolding t2 by (simp add: exMicros_def)
  have m1: "m_summary (exMicro 100 200 ''Coding'' []) = JStr (asc ''Coding'')" by (simp add: exMicro_def)
  have m2: "m_summary (last exMicros) = JStr (asc ''Browsing'')" by (simp add: exMicro_def exMicros_def)
  have a: "apiCalls ?s1 = 0" by (simp add: exSummarizer_def)
  show ?thesis
    using onDemandSummary_cases[where e = ?e and nowFlush = 500 and dayStart = 0 and now = 1000 and s = ?s1
               and m = "exMicro 100 200 ''Coding'' []"]
          onDemandSummary_cases[where e = ?e and nowFlush = 500 and dayStart = 0 and now = 1000 and s = ?s2
               and err = "CompletionFailed (asc ''timeout'')"]
          t1 t2 r l m1 m2 f1 a
    by simp
qed

end
